theory Spec2Isabelle
  imports Main "HOL-Library.AList" "HOL-Library.Multiset" "HOL-Library.Sublist"
begin

section \<open>Data model\<close>

text \<open>
  The tool \<open>gocar new\<close> creates a Go project on disk from a name and a mode. The model
  follows three source files: the \<open>new\<close> command (\<open>NewCommand.Run\<close>), the project
  creator (\<open>internal/project/creator.go\<close>) and the global configuration
  (\<open>internal/config\<close>: \<open>LoadGlobalConfig\<close> and its neighbours).

  Go strings are byte sequences, so a \<^typ>\<open>string\<close> here is the list of the bytes of the
  Go string (UTF-8 for the non-ASCII comments of the generated file).
\<close>

subsection \<open>Paths\<close>

text \<open>
  The source builds every path with the library functions \<open>filepath.Join\<close> and
  \<open>filepath.Dir\<close>. They are not interpreted: a path is the expression the source
  builds, \<open>Str s\<close> being a Go string used as a path as it is (\<open>c.Name\<close>, a home
  directory). Two paths are equal in the model when the source built them the same way.
\<close>

datatype path = Str string | Join "path list" | Dir path

subsection \<open>Go maps\<close>

text \<open>
  A \<open>map[string]string\<close> is an association list with distinct keys; \<open>m[k] = v\<close> is
  \<^const>\<open>AList.update\<close> and a lookup is \<^const>\<open>map_of\<close>. The order of the list is
  only a representation: a \<open>range\<close> loop visits the entries in an order the runtime
  chooses (see \<open>rangeOrder\<close> below).
\<close>

type_synonym gomap = "(string \<times> string) list"

subsection \<open>The configuration structures (package config)\<close>

text \<open>
  \<open>TemplateConfig\<close> also has the fields \<open>Build\<close> and \<open>Run\<close>; their types are declared
  elsewhere in the repository and no function modelled here reads them, so they are left out.
\<close>

record TemplateConfig =
  Description :: string
  Mode :: string
  Dirs :: "string list"
  Files :: gomap
  Commands :: gomap

record DefaultsConfig =
  Author :: string
  License :: string

record GlobalConfig =
  Templates :: "(string \<times> TemplateConfig) list"
  Defaults :: DefaultsConfig

definition GlobalConfigFileName :: string where
  "GlobalConfigFileName = ''config.toml''"

definition GlobalConfigDir :: string where
  "GlobalConfigDir = ''.gocar''"

text \<open>
  Modelled from the spec: the constant \<open>config.ConfigFileName\<close> is declared elsewhere in
  the repository. The spec calls it a fixed project-local configuration filename at the
  project root; the comment at its only use, in \<open>createFromTemplate\<close>, names the file
  \<open>.gocar.toml\<close>.
\<close>

definition ConfigFileName :: string where
  "ConfigFileName = ''.gocar.toml''"

subsection \<open>The creator (package project)\<close>

record Creator =
  Name :: string
  Mode :: string
  Template :: "TemplateConfig option"

definition NewCreator :: "string \<Rightarrow> string \<Rightarrow> Creator" where
  "NewCreator name mode = \<lparr>Name = name, Mode = mode, Template = None\<rparr>"

definition NewCreatorWithTemplate :: "string \<Rightarrow> TemplateConfig \<Rightarrow> Creator" where
  "NewCreatorWithTemplate name tpl =
     \<lparr>Name = name, Mode = TemplateConfig.Mode tpl, Template = Some tpl\<rparr>"

subsection \<open>Effects and errors\<close>

text \<open>
  Every call that touches the disk, runs an external command or prints the warning of
  \<open>Create\<close> is recorded, in the order the code issues it. \<open>MkdirAll\<close> is always called
  with permission \<open>0755\<close>, which the record leaves out. A call that fails is recorded
  too: it was issued, and may have changed the disk before failing.
\<close>

type_synonym cause = string

datatype call =
    MkdirAll path
  | RunCommandSilent string "string list"
  | WriteFile path string
  | InitGit string
  | PrintWarning cause

type_synonym trace = "call list"

datatype error =
    AlreadyExists string
  | DirectoryCreateError path cause
  | ModuleInitError cause
  | ParentDirectoryError string cause
  | FileWriteError cause
  | NilTemplate
  | HomeDirError cause
  | ParseError path cause
  | UnknownMode string "string list"

text \<open>
  \<open>os.Stat\<close> returns no error when the path is there, and otherwise an error that
  \<open>os.IsNotExist\<close> recognises or one it does not (a permission error on a parent
  directory, a name that is too long, ...).
\<close>

datatype stat_error = ErrNotExist | ErrPermission | ErrOther cause

definition os_IsNotExist :: "stat_error option \<Rightarrow> bool" where
  "os_IsNotExist err = (err = Some ErrNotExist)"

text \<open>The three \<open>range\<close> loops over a map in the creator.\<close>

datatype range_site = RangeFiles | RangeTemplateCommands | RangeCommands

text \<open>
  The world outside the program: what \<open>os.Stat\<close> answers, whether a call fails (given
  the calls issued so far) and with which cause, in which order a \<open>range\<close> loop visits a
  map, the home directory, and what the TOML decoder makes of the file at a path (it fills
  the structure it is given).
\<close>

record world =
  os_Stat :: "path \<Rightarrow> stat_error option"
  perform :: "trace \<Rightarrow> call \<Rightarrow> cause option"
  rangeOrder :: "range_site \<Rightarrow> gomap \<Rightarrow> gomap"
  os_UserHomeDir :: "cause + string"
  toml_DecodeFile :: "path \<Rightarrow> GlobalConfig \<Rightarrow> cause + GlobalConfig"

text \<open>
  Functions the creator calls whose bodies are elsewhere: the verb
  \<open>%q\<close> of \<open>fmt.Sprintf\<close> (\<open>strconv.Quote\<close>) and the five file templates of package
  project, each taking the project name.
\<close>

record ext =
  quote :: "string \<Rightarrow> string"
  SimpleMainTemplate :: "string \<Rightarrow> string"
  SimpleReadmeTemplate :: "string \<Rightarrow> string"
  GitignoreTemplate :: "string \<Rightarrow> string"
  ProjectMainTemplate :: "string \<Rightarrow> string"
  ProjectReadmeTemplate :: "string \<Rightarrow> string"

text \<open>
  A runtime may visit a map in any order, but it visits each entry once: the order is a
  permutation of the entries.
\<close>

definition range_ok :: "world \<Rightarrow> bool" where
  "range_ok w \<longleftrightarrow>
     (\<forall>site m. distinct (map fst m) \<longrightarrow> mset (rangeOrder w site m) = mset m)"

type_synonym io = "trace \<Rightarrow> error option \<times> trace"

definition io_ok :: io where
  "io_ok tr = (None, tr)"

definition io_fail :: "error \<Rightarrow> io" where
  "io_fail e tr = (Some e, tr)"

definition io_then :: "io \<Rightarrow> io \<Rightarrow> io" where
  \<comment> \<open>\<open>if err := m; err != nil { return err }\<close> followed by \<open>k\<close>\<close>
  "io_then m k tr = (case m tr of (Some e, tr') \<Rightarrow> (Some e, tr') | (None, tr') \<Rightarrow> k tr')"

definition issue :: "world \<Rightarrow> call \<Rightarrow> (cause \<Rightarrow> error) \<Rightarrow> io" where
  \<comment> \<open>issue a call; on failure wrap the cause as the source does\<close>
  "issue w a wrap tr = (map_option wrap (perform w tr a), tr @ [a])"

definition os_MkdirAll :: "world \<Rightarrow> path \<Rightarrow> (cause \<Rightarrow> error) \<Rightarrow> io" where
  "os_MkdirAll w p wrap = issue w (MkdirAll p) wrap"

definition util_WriteFile :: "world \<Rightarrow> path \<Rightarrow> string \<Rightarrow> io" where
  \<comment> \<open>the error of \<open>util.WriteFile\<close> is returned as it is\<close>
  "util_WriteFile w p content = issue w (WriteFile p content) FileWriteError"

definition goModInit :: "world \<Rightarrow> string \<Rightarrow> io" where
  \<comment> \<open>\<open>util.RunCommandSilent(c.Name, "go", "mod", "init", c.Name)\<close>\<close>
  "goModInit w name =
     issue w (RunCommandSilent name [''go'', ''mod'', ''init'', name]) ModuleInitError"

section \<open>The text of the generated configuration\<close>

text \<open>
  \<open>generateTemplateConfigContent\<close> fills a fixed text with four \<open>%s\<close> verbs: the mode,
  the name, the build entry and the command section, which ends the text. The four
  constants below are the bytes of that text up to each verb.
\<close>

definition configText_head :: string where
  \<open>configText_head = concat
    [''# gocar '' @ [CHR 0xE9, CHR 0xA1, CHR 0xB9, CHR 0xE7, CHR 0x9B, CHR 0xAE, CHR 0xE9,
       CHR 0x85, CHR 0x8D, CHR 0xE7, CHR 0xBD, CHR 0xAE, CHR 0xE6, CHR 0x96, CHR 0x87, CHR 0xE4,
       CHR 0xBB, CHR 0xB6] @ ''\<newline>'',
     ''# '' @ [CHR 0xE6, CHR 0x96, CHR 0x87, CHR 0xE6, CHR 0xA1,
       CHR 0xA3] @ '': https://github.com/uselibrary/gocar\<newline>'',
     ''\<newline>'',
     ''# '' @ [CHR 0xE9, CHR 0xA1, CHR 0xB9, CHR 0xE7, CHR 0x9B, CHR 0xAE, CHR 0xE9, CHR 0x85,
       CHR 0x8D, CHR 0xE7, CHR 0xBD, CHR 0xAE] @ ''\<newline>'',
     ''[project]\<newline>'',
     ''# '' @ [CHR 0xE9, CHR 0xA1, CHR 0xB9, CHR 0xE7, CHR 0x9B, CHR 0xAE, CHR 0xE6, CHR 0xA8,
       CHR 0xA1, CHR 0xE5, CHR 0xBC, CHR 0x8F] @ '': "simple" ('' @ [CHR 0xE5, CHR 0x8D, CHR 0x95,
       CHR 0xE6, CHR 0x96, CHR 0x87, CHR 0xE4, CHR 0xBB, CHR 0xB6] @ '') '' @ [CHR 0xE6, CHR 0x88,
       CHR 0x96] @ '' "project" ('' @ [CHR 0xE6, CHR 0xA0, CHR 0x87, CHR 0xE5, CHR 0x87, CHR 0x86,
       CHR 0xE7, CHR 0x9B, CHR 0xAE, CHR 0xE5, CHR 0xBD, CHR 0x95, CHR 0xE7, CHR 0xBB, CHR 0x93,
       CHR 0xE6, CHR 0x9E, CHR 0x84] @ '')\<newline>'',
     ''# '' @ [CHR 0xE7, CHR 0x95, CHR 0x99, CHR 0xE7, CHR 0xA9, CHR 0xBA, CHR 0xE5, CHR 0x88,
       CHR 0x99, CHR 0xE8, CHR 0x87, CHR 0xAA, CHR 0xE5, CHR 0x8A, CHR 0xA8, CHR 0xE6, CHR 0xA3,
       CHR 0x80, CHR 0xE6, CHR 0xB5, CHR 0x8B] @ ''\<newline>'',
     ''mode = "'']\<close>

definition configText_after_mode :: string where
  \<open>configText_after_mode = concat
    [''"\<newline>'',
     ''\<newline>'',
     ''# '' @ [CHR 0xE9, CHR 0xA1, CHR 0xB9, CHR 0xE7, CHR 0x9B, CHR 0xAE, CHR 0xE5, CHR 0x90,
       CHR 0x8D, CHR 0xE7, CHR 0xA7, CHR 0xB0, CHR 0xEF, CHR 0xBC, CHR 0x8C, CHR 0xE7, CHR 0x95,
       CHR 0x99, CHR 0xE7, CHR 0xA9, CHR 0xBA, CHR 0xE5, CHR 0x88, CHR 0x99, CHR 0xE4, CHR 0xBD,
       CHR 0xBF, CHR 0xE7, CHR 0x94, CHR 0xA8, CHR 0xE7, CHR 0x9B, CHR 0xAE, CHR 0xE5, CHR 0xBD,
       CHR 0x95, CHR 0xE5, CHR 0x90, CHR 0x8D] @ ''\<newline>'',
     ''name = "'']\<close>

definition configText_after_name :: string where
  \<open>configText_after_name = concat
    [''"\<newline>'',
     ''\<newline>'',
     ''# '' @ [CHR 0xE6, CHR 0x9E, CHR 0x84, CHR 0xE5, CHR 0xBB, CHR 0xBA, CHR 0xE9, CHR 0x85,
       CHR 0x8D, CHR 0xE7, CHR 0xBD, CHR 0xAE] @ ''\<newline>'',
     ''[build]\<newline>'',
     ''# '' @ [CHR 0xE6, CHR 0x9E, CHR 0x84, CHR 0xE5, CHR 0xBB, CHR 0xBA, CHR 0xE5, CHR 0x85,
       CHR 0xA5, CHR 0xE5, CHR 0x8F, CHR 0xA3, CHR 0xE8, CHR 0xB7, CHR 0xAF, CHR 0xE5, CHR 0xBE,
       CHR 0x84] @ '' ('' @ [CHR 0xE7, CHR 0x9B, CHR 0xB8, CHR 0xE5, CHR 0xAF, CHR 0xB9, CHR 0xE4,
       CHR 0xBA, CHR 0x8E, CHR 0xE9, CHR 0xA1, CHR 0xB9, CHR 0xE7, CHR 0x9B, CHR 0xAE, CHR 0xE6,
       CHR 0xA0, CHR 0xB9, CHR 0xE7, CHR 0x9B, CHR 0xAE, CHR 0xE5, CHR 0xBD,
       CHR 0x95] @ '')\<newline>'',
     ''# simple '' @ [CHR 0xE6, CHR 0xA8, CHR 0xA1, CHR 0xE5, CHR 0xBC, CHR 0x8F, CHR 0xE9,
       CHR 0xBB, CHR 0x98, CHR 0xE8, CHR 0xAE, CHR 0xA4, CHR 0xE4, CHR 0xB8, CHR 0xBA]
       @ '' ".", project '' @ [CHR 0xE6, CHR 0xA8, CHR 0xA1, CHR 0xE5, CHR 0xBC, CHR 0x8F, CHR 0xE9,
       CHR 0xBB, CHR 0x98, CHR 0xE8, CHR 0xAE, CHR 0xA4, CHR 0xE4, CHR 0xB8,
       CHR 0xBA] @ '' "cmd/server"\<newline>'',
     ''entry = "'']\<close>

definition configText_after_entry :: string where
  \<open>configText_after_entry = concat
    [''"\<newline>'',
     ''\<newline>'',
     ''# '' @ [CHR 0xE8, CHR 0xBE, CHR 0x93, CHR 0xE5, CHR 0x87, CHR 0xBA, CHR 0xE7, CHR 0x9B,
       CHR 0xAE, CHR 0xE5, CHR 0xBD, CHR 0x95] @ ''\<newline>'',
     ''output = "bin"\<newline>'',
     ''\<newline>'',
     ''# '' @ [CHR 0xE9, CHR 0xA2, CHR 0x9D, CHR 0xE5, CHR 0xA4, CHR 0x96, CHR 0xE7, CHR 0x9A,
       CHR 0x84] @ '' ldflags'' @ [CHR 0xEF, CHR 0xBC, CHR 0x8C, CHR 0xE4, CHR 0xBC, CHR 0x9A,
       CHR 0xE8, CHR 0xBF, CHR 0xBD, CHR 0xE5, CHR 0x8A, CHR 0xA0, CHR 0xE5, CHR 0x88, CHR 0xB0,
       CHR 0xE9, CHR 0xBB, CHR 0x98, CHR 0xE8, CHR 0xAE, CHR 0xA4] @ '' ldflags '' @ [CHR 0xE4,
       CHR 0xB9, CHR 0x8B, CHR 0xE5, CHR 0x90, CHR 0x8E] @ ''\<newline>'',
     ''# '' @ [CHR 0xE4, CHR 0xBE, CHR 0x8B, CHR 0xE5, CHR 0xA6,
       CHR 0x82] @ '': "-X main.version=1.0.0"\<newline>'',
     ''ldflags = ""\<newline>'',
     ''\<newline>'',
     ''# '' @ [CHR 0xE6, CHR 0x9E, CHR 0x84, CHR 0xE5, CHR 0xBB, CHR 0xBA, CHR 0xE6, CHR 0xA0,
       CHR 0x87, CHR 0xE7, CHR 0xAD, CHR 0xBE] @ ''\<newline>'',
     ''# tags = ["jsoniter", "sonic"]\<newline>'',
     ''\<newline>'',
     ''# '' @ [CHR 0xE9, CHR 0xA2, CHR 0x9D, CHR 0xE5, CHR 0xA4, CHR 0x96, CHR 0xE7, CHR 0x9A,
       CHR 0x84, CHR 0xE7, CHR 0x8E, CHR 0xAF, CHR 0xE5, CHR 0xA2, CHR 0x83, CHR 0xE5, CHR 0x8F,
       CHR 0x98, CHR 0xE9, CHR 0x87, CHR 0x8F] @ ''\<newline>'',
     ''# extra_env = ["GOPROXY=https://goproxy.cn"]\<newline>'',
     ''\<newline>'',
     ''# '' @ [CHR 0xE8, CHR 0xBF, CHR 0x90, CHR 0xE8, CHR 0xA1, CHR 0x8C, CHR 0xE9, CHR 0x85,
       CHR 0x8D, CHR 0xE7, CHR 0xBD, CHR 0xAE] @ ''\<newline>'',
     ''[run]\<newline>'',
     ''# '' @ [CHR 0xE8, CHR 0xBF, CHR 0x90, CHR 0xE8, CHR 0xA1, CHR 0x8C, CHR 0xE5, CHR 0x85,
       CHR 0xA5, CHR 0xE5, CHR 0x8F, CHR 0xA3, CHR 0xE8, CHR 0xB7, CHR 0xAF, CHR 0xE5, CHR 0xBE,
       CHR 0x84, CHR 0xEF, CHR 0xBC, CHR 0x8C, CHR 0xE7, CHR 0x95, CHR 0x99, CHR 0xE7, CHR 0xA9,
       CHR 0xBA, CHR 0xE5, CHR 0x88, CHR 0x99, CHR 0xE4, CHR 0xBD, CHR 0xBF, CHR 0xE7, CHR 0x94,
       CHR 0xA8] @ '' build.entry\<newline>'',
     ''entry = ""\<newline>'',
     ''\<newline>'',
     ''# '' @ [CHR 0xE9, CHR 0xBB, CHR 0x98, CHR 0xE8, CHR 0xAE, CHR 0xA4, CHR 0xE8, CHR 0xBF,
       CHR 0x90, CHR 0xE8, CHR 0xA1, CHR 0x8C, CHR 0xE5, CHR 0x8F, CHR 0x82, CHR 0xE6, CHR 0x95,
       CHR 0xB0] @ ''\<newline>'',
     ''# args = ["-config", "config.yaml"]\<newline>'',
     ''\<newline>'',
     ''# Debug '' @ [CHR 0xE6, CHR 0x9E, CHR 0x84, CHR 0xE5, CHR 0xBB, CHR 0xBA, CHR 0xE9,
       CHR 0x85, CHR 0x8D, CHR 0xE7, CHR 0xBD, CHR 0xAE] @ ''\<newline>'',
     ''# '' @ [CHR 0xE4, CHR 0xBD, CHR 0xBF, CHR 0xE7, CHR 0x94,
       CHR 0xA8] @ '': gocar build ('' @ [CHR 0xE9, CHR 0xBB, CHR 0x98, CHR 0xE8, CHR 0xAE,
       CHR 0xA4] @ '')\<newline>'',
     ''[profile.debug]\<newline>'',
     ''# ldflags = ""              # Debug '' @ [CHR 0xE9, CHR 0xBB, CHR 0x98, CHR 0xE8, CHR 0xAE,
       CHR 0xA4, CHR 0xE6, CHR 0x97, CHR 0xA0] @ '' ldflags\<newline>'',
     ''# gcflags = "all=-N -l"     # '' @ [CHR 0xE7, CHR 0xA6, CHR 0x81, CHR 0xE7, CHR 0x94,
       CHR 0xA8, CHR 0xE4, CHR 0xBC, CHR 0x98, CHR 0xE5, CHR 0x8C, CHR 0x96, CHR 0xEF, CHR 0xBC,
       CHR 0x8C, CHR 0xE6, CHR 0x96, CHR 0xB9, CHR 0xE4, CHR 0xBE, CHR 0xBF, CHR 0xE8, CHR 0xB0,
       CHR 0x83, CHR 0xE8, CHR 0xAF, CHR 0x95] @ ''\<newline>'',
     ''# trimpath = false          # '' @ [CHR 0xE4, CHR 0xBF, CHR 0x9D, CHR 0xE7, CHR 0x95,
       CHR 0x99, CHR 0xE8, CHR 0xB7, CHR 0xAF, CHR 0xE5, CHR 0xBE, CHR 0x84, CHR 0xE4, CHR 0xBF,
       CHR 0xA1, CHR 0xE6, CHR 0x81, CHR 0xAF] @ ''\<newline>'',
     ''# cgo_enabled = true        # '' @ [CHR 0xE8, CHR 0xB7, CHR 0x9F, CHR 0xE9, CHR 0x9A,
       CHR 0x8F, CHR 0xE7, CHR 0xB3, CHR 0xBB, CHR 0xE7, CHR 0xBB, CHR 0x9F, CHR 0xE9, CHR 0xBB,
       CHR 0x98, CHR 0xE8, CHR 0xAE, CHR 0xA4] @ ''\<newline>'',
     ''# race = false              # '' @ [CHR 0xE7, CHR 0xAB, CHR 0x9E, CHR 0xE6, CHR 0x80,
       CHR 0x81, CHR 0xE6, CHR 0xA3, CHR 0x80, CHR 0xE6, CHR 0xB5, CHR 0x8B] @ '' ('' @ [CHR 0xE4,
       CHR 0xBC, CHR 0x9A, CHR 0xE6, CHR 0x98, CHR 0xBE, CHR 0xE8, CHR 0x91, CHR 0x97, CHR 0xE9,
       CHR 0x99, CHR 0x8D, CHR 0xE4, CHR 0xBD, CHR 0x8E, CHR 0xE6, CHR 0x80, CHR 0xA7, CHR 0xE8,
       CHR 0x83, CHR 0xBD] @ '')\<newline>'',
     ''\<newline>'',
     ''# Release '' @ [CHR 0xE6, CHR 0x9E, CHR 0x84, CHR 0xE5, CHR 0xBB, CHR 0xBA, CHR 0xE9,
       CHR 0x85, CHR 0x8D, CHR 0xE7, CHR 0xBD, CHR 0xAE] @ ''\<newline>'',
     ''# '' @ [CHR 0xE4, CHR 0xBD, CHR 0xBF, CHR 0xE7, CHR 0x94,
       CHR 0xA8] @ '': gocar build --release\<newline>'',
     ''[profile.release]\<newline>'',
     ''ldflags = "-s -w"           # '' @ [CHR 0xE8, CHR 0xA3, CHR 0x81, CHR 0xE5, CHR 0x89,
       CHR 0xAA, CHR 0xE7, CHR 0xAC, CHR 0xA6, CHR 0xE5, CHR 0x8F, CHR 0xB7, CHR 0xE8, CHR 0xA1,
       CHR 0xA8, CHR 0xE5, CHR 0x92, CHR 0x8C, CHR 0xE8, CHR 0xB0, CHR 0x83, CHR 0xE8, CHR 0xAF,
       CHR 0x95, CHR 0xE4, CHR 0xBF, CHR 0xA1, CHR 0xE6, CHR 0x81, CHR 0xAF] @ ''\<newline>'',
     ''# gcflags = ""              # '' @ [CHR 0xE7, CHR 0xBC, CHR 0x96, CHR 0xE8, CHR 0xAF,
       CHR 0x91, CHR 0xE5, CHR 0x99, CHR 0xA8, CHR 0xE5, CHR 0x8F, CHR 0x82, CHR 0xE6, CHR 0x95,
       CHR 0xB0] @ ''\<newline>'',
     ''trimpath = true             # '' @ [CHR 0xE7, CHR 0xA7, CHR 0xBB, CHR 0xE9, CHR 0x99,
       CHR 0xA4, CHR 0xE7, CHR 0xBC, CHR 0x96, CHR 0xE8, CHR 0xAF, CHR 0x91, CHR 0xE8, CHR 0xB7,
       CHR 0xAF, CHR 0xE5, CHR 0xBE, CHR 0x84, CHR 0xE4, CHR 0xBF, CHR 0xA1, CHR 0xE6, CHR 0x81,
       CHR 0xAF] @ ''\<newline>'',
     ''cgo_enabled = false         # '' @ [CHR 0xE7, CHR 0xA6, CHR 0x81, CHR 0xE7, CHR 0x94,
       CHR 0xA8] @ '' CGO '' @ [CHR 0xE4, CHR 0xBB, CHR 0xA5, CHR 0xE7, CHR 0x94, CHR 0x9F,
       CHR 0xE6, CHR 0x88, CHR 0x90, CHR 0xE9, CHR 0x9D, CHR 0x99, CHR 0xE6, CHR 0x80, CHR 0x81,
       CHR 0xE4, CHR 0xBA, CHR 0x8C, CHR 0xE8, CHR 0xBF, CHR 0x9B, CHR 0xE5, CHR 0x88,
       CHR 0xB6] @ ''\<newline>'',
     ''# race = false              # '' @ [CHR 0xE7, CHR 0xAB, CHR 0x9E, CHR 0xE6, CHR 0x80,
       CHR 0x81, CHR 0xE6, CHR 0xA3, CHR 0x80, CHR 0xE6, CHR 0xB5, CHR 0x8B] @ ''\<newline>'',
     ''\<newline>'',
     ''# '' @ [CHR 0xE8, CHR 0x87, CHR 0xAA, CHR 0xE5, CHR 0xAE, CHR 0x9A, CHR 0xE4, CHR 0xB9,
       CHR 0x89, CHR 0xE5, CHR 0x91, CHR 0xBD, CHR 0xE4, CHR 0xBB, CHR 0xA4] @ ''\<newline>'',
     ''# '' @ [CHR 0xE6, CHR 0xA0, CHR 0xBC, CHR 0xE5, CHR 0xBC, CHR 0x8F] @ '': '' @ [CHR 0xE5,
       CHR 0x91, CHR 0xBD, CHR 0xE4, CHR 0xBB, CHR 0xA4, CHR 0xE5, CHR 0x90,
       CHR 0x8D] @ '' = "'' @ [CHR 0xE8, CHR 0xA6, CHR 0x81, CHR 0xE6, CHR 0x89, CHR 0xA7,
       CHR 0xE8, CHR 0xA1, CHR 0x8C, CHR 0xE7, CHR 0x9A, CHR 0x84] @ '' shell '' @ [CHR 0xE5,
       CHR 0x91, CHR 0xBD, CHR 0xE4, CHR 0xBB, CHR 0xA4] @ ''"\<newline>'',
     ''# '' @ [CHR 0xE4, CHR 0xBD, CHR 0xBF, CHR 0xE7, CHR 0x94,
       CHR 0xA8] @ '': gocar <'' @ [CHR 0xE5, CHR 0x91, CHR 0xBD, CHR 0xE4, CHR 0xBB, CHR 0xA4,
       CHR 0xE5, CHR 0x90, CHR 0x8D] @ ''>\<newline>'',
     ''# '' @ [CHR 0xE5, CHR 0x91, CHR 0xBD, CHR 0xE4, CHR 0xBB, CHR 0xA4, CHR 0xE4, CHR 0xBC,
       CHR 0x9A, CHR 0xE5, CHR 0x9C, CHR 0xA8, CHR 0xE9, CHR 0xA1, CHR 0xB9, CHR 0xE7, CHR 0x9B,
       CHR 0xAE, CHR 0xE6, CHR 0xA0, CHR 0xB9, CHR 0xE7, CHR 0x9B, CHR 0xAE, CHR 0xE5, CHR 0xBD,
       CHR 0x95, CHR 0xE4, CHR 0xB8, CHR 0x8B, CHR 0xE6, CHR 0x89, CHR 0xA7, CHR 0xE8, CHR 0xA1,
       CHR 0x8C] @ ''\<newline>'',
     ''[commands]\<newline>'']\<close>

section \<open>The creator\<close>

fun mkdirAll_each :: "world \<Rightarrow> path list \<Rightarrow> io" where
  \<comment> \<open>\<open>for _, dir := range dirs { os.MkdirAll(dir, 0755) }\<close> of the two base layouts\<close>
  "mkdirAll_each w [] = io_ok"
| "mkdirAll_each w (d # ds) =
     io_then (os_MkdirAll w d (DirectoryCreateError d)) (mkdirAll_each w ds)"

fun writeFile_each :: "world \<Rightarrow> path list \<Rightarrow> io" where
  \<comment> \<open>\<open>for _, f := range emptyDirs { util.WriteFile(f, "") }\<close>\<close>
  "writeFile_each w [] = io_ok"
| "writeFile_each w (f # fs) = io_then (util_WriteFile w f []) (writeFile_each w fs)"

definition createSimpleProject :: "ext \<Rightarrow> world \<Rightarrow> Creator \<Rightarrow> io" where
  "createSimpleProject x w c =
     io_then (mkdirAll_each w [Str (Name c), Join [Str (Name c), Str ''bin'']])
    (io_then (goModInit w (Name c))
    (io_then (util_WriteFile w (Join [Str (Name c), Str ''main.go''])
                (SimpleMainTemplate x (Name c)))
    (io_then (util_WriteFile w (Join [Str (Name c), Str ''README.md''])
                (SimpleReadmeTemplate x (Name c)))
             (util_WriteFile w (Join [Str (Name c), Str ''.gitignore''])
                (GitignoreTemplate x (Name c))))))"

definition createProjectMode :: "ext \<Rightarrow> world \<Rightarrow> Creator \<Rightarrow> io" where
  "createProjectMode x w c =
     io_then (mkdirAll_each w
                [Str (Name c),
                 Join [Str (Name c), Str ''cmd'', Str ''server''],
                 Join [Str (Name c), Str ''internal''],
                 Join [Str (Name c), Str ''pkg''],
                 Join [Str (Name c), Str ''test''],
                 Join [Str (Name c), Str ''bin'']])
    (io_then (goModInit w (Name c))
    (io_then (util_WriteFile w (Join [Str (Name c), Str ''cmd'', Str ''server'', Str ''main.go''])
                (ProjectMainTemplate x (Name c)))
    (io_then (writeFile_each w
                [Join [Str (Name c), Str ''internal'', Str ''.gitkeep''],
                 Join [Str (Name c), Str ''pkg'', Str ''.gitkeep''],
                 Join [Str (Name c), Str ''test'', Str ''.gitkeep'']])
    (io_then (util_WriteFile w (Join [Str (Name c), Str ''README.md''])
                (ProjectReadmeTemplate x (Name c)))
             (util_WriteFile w (Join [Str (Name c), Str ''.gitignore''])
                (GitignoreTemplate x (Name c)))))))"

fun templateDirs :: "world \<Rightarrow> string \<Rightarrow> string list \<Rightarrow> io" where
  \<comment> \<open>the loop over \<open>c.Template.Dirs\<close>: the directory, then its \<open>.gitkeep\<close>\<close>
  "templateDirs w name [] = io_ok"
| "templateDirs w name (dir # dirs) =
     io_then (os_MkdirAll w (Join [Str name, Str dir]) (DirectoryCreateError (Str dir)))
    (io_then (util_WriteFile w (Join [Join [Str name, Str dir], Str ''.gitkeep'']) [])
             (templateDirs w name dirs))"

fun templateFiles :: "world \<Rightarrow> string \<Rightarrow> gomap \<Rightarrow> io" where
  \<comment> \<open>the loop over \<open>c.Template.Files\<close>, on the entries in the order the runtime gives\<close>
  "templateFiles w name [] = io_ok"
| "templateFiles w name ((filePath, content) # files) =
     io_then (os_MkdirAll w (Dir (Join [Str name, Str filePath]))
                (ParentDirectoryError filePath))
    (io_then (util_WriteFile w (Join [Str name, Str filePath]) content)
             (templateFiles w name files))"

definition builtinCommands :: gomap where
  "builtinCommands =
     [(''vet'', ''go vet ./...''),
      (''fmt'', ''go fmt ./...''),
      (''test'', ''go test -v ./...'')]"

definition mergeCommands :: "world \<Rightarrow> TemplateConfig \<Rightarrow> gomap" where
  \<comment> \<open>the map \<open>commands\<close> of \<open>createTemplateConfig\<close> after its loop\<close>
  "mergeCommands w t =
     foldl (\<lambda>commands (name, cmd). AList.update name cmd commands) builtinCommands
       (rangeOrder w RangeTemplateCommands (Commands t))"

definition buildEntry :: "Creator \<Rightarrow> string" where
  \<comment> \<open>the variable \<open>entry\<close> of \<open>generateTemplateConfigContent\<close>\<close>
  "buildEntry c = (if Creator.Mode c = ''project'' then ''cmd/server'' else ''.'')"

definition commandLine :: "ext \<Rightarrow> string \<times> string \<Rightarrow> string" where
  \<comment> \<open>\<open>fmt.Sprintf("%s = %q\n", name, cmd)\<close>\<close>
  "commandLine x = (\<lambda>(name, cmd). name @ '' = '' @ quote x cmd @ ''\<newline>'')"

definition cmdSection :: "ext \<Rightarrow> world \<Rightarrow> gomap \<Rightarrow> string" where
  \<comment> \<open>the loop \<open>for name, cmd := range commands { cmdSection += ... }\<close>\<close>
  "cmdSection x w commands =
     foldl (\<lambda>s entry. s @ commandLine x entry) [] (rangeOrder w RangeCommands commands)"

definition generateTemplateConfigContent :: "ext \<Rightarrow> world \<Rightarrow> Creator \<Rightarrow> gomap \<Rightarrow> string" where
  "generateTemplateConfigContent x w c commands =
     configText_head @ Creator.Mode c @ configText_after_mode @ Name c
       @ configText_after_name @ buildEntry c @ configText_after_entry
       @ cmdSection x w commands"

definition createTemplateConfig :: "ext \<Rightarrow> world \<Rightarrow> Creator \<Rightarrow> io" where
  "createTemplateConfig x w c =
     (case Template c of
        None \<Rightarrow> io_fail NilTemplate
      | Some t \<Rightarrow>
          util_WriteFile w (Join [Str (Name c), Str ConfigFileName])
            (generateTemplateConfigContent x w c (mergeCommands w t)))"

definition createBase :: "ext \<Rightarrow> world \<Rightarrow> Creator \<Rightarrow> io" where
  \<comment> \<open>the first statement of \<open>createFromTemplate\<close>\<close>
  "createBase x w c =
     (if Creator.Mode c = ''simple'' then createSimpleProject x w c
      else createProjectMode x w c)"

definition createFromTemplate :: "ext \<Rightarrow> world \<Rightarrow> Creator \<Rightarrow> io" where
  "createFromTemplate x w c =
     io_then (createBase x w c)
       (case Template c of
          None \<Rightarrow> io_fail NilTemplate
        | Some t \<Rightarrow>
            io_then (templateDirs w (Name c) (Dirs t))
           (io_then (templateFiles w (Name c) (rangeOrder w RangeFiles (Files t)))
                    (createTemplateConfig x w c)))"

definition initGit :: "world \<Rightarrow> string \<Rightarrow> io" where
  \<comment> \<open>the last statement of \<open>Create\<close>: a failure of \<open>util.InitGit\<close> is printed, not returned\<close>
  "initGit w name tr =
     (case perform w tr (InitGit name) of
        Some e \<Rightarrow> (None, tr @ [InitGit name, PrintWarning e])
      | None \<Rightarrow> (None, tr @ [InitGit name]))"

definition Create :: "ext \<Rightarrow> world \<Rightarrow> Creator \<Rightarrow> io" where
  "Create x w c =
     (if \<not> os_IsNotExist (os_Stat w (Str (Name c))) then io_fail (AlreadyExists (Name c))
      else io_then
             (if Template c \<noteq> None then createFromTemplate x w c
              else if Creator.Mode c = ''simple'' then createSimpleProject x w c
              else createProjectMode x w c)
             (initGit w (Name c)))"

section \<open>The global configuration\<close>

definition GetGlobalConfigDir :: "world \<Rightarrow> error + path" where
  "GetGlobalConfigDir w =
     (case os_UserHomeDir w of
        Inl e \<Rightarrow> Inl (HomeDirError e)
      | Inr homeDir \<Rightarrow> Inr (Join [Str homeDir, Str GlobalConfigDir]))"

definition GetGlobalConfigPath :: "world \<Rightarrow> error + path" where
  "GetGlobalConfigPath w =
     (case GetGlobalConfigDir w of
        Inl e \<Rightarrow> Inl e
      | Inr configDir \<Rightarrow> Inr (Join [configDir, Str GlobalConfigFileName]))"

definition DefaultGlobalConfig :: GlobalConfig where
  "DefaultGlobalConfig =
     \<lparr>Templates = [], Defaults = \<lparr>Author = [], License = ''MIT''\<rparr>\<rparr>"

definition LoadGlobalConfig :: "world \<Rightarrow> error + GlobalConfig" where
  "LoadGlobalConfig w =
     (case GetGlobalConfigPath w of
        Inl e \<Rightarrow> Inl e
      | Inr configPath \<Rightarrow>
          if os_IsNotExist (os_Stat w configPath) then Inr DefaultGlobalConfig
          else (case toml_DecodeFile w configPath
                       \<lparr>Templates = [], Defaults = \<lparr>Author = [], License = []\<rparr>\<rparr> of
                  Inl e \<Rightarrow> Inl (ParseError configPath e)
                | Inr config \<Rightarrow> Inr config))"

definition GetTemplate :: "GlobalConfig \<Rightarrow> string \<Rightarrow> TemplateConfig option" where
  "GetTemplate c name = map_of (Templates c) name"

definition ListTemplates :: "GlobalConfig \<Rightarrow> (string \<times> TemplateConfig) list" where
  "ListTemplates c = Templates c"

section \<open>The new command\<close>

text \<open>
  \<open>NewCommand.Run\<close> from the comment on the built-in modes on: which creator the mode
  token selects (an error is the message printed before \<open>os.Exit(1)\<close>), and the
  creation that follows.
\<close>

definition selectCreator :: "world \<Rightarrow> string \<Rightarrow> string \<Rightarrow> error + Creator" where
  "selectCreator w appName mode =
     (if mode = ''simple'' \<or> mode = ''project'' then Inr (NewCreator appName mode)
      else (case LoadGlobalConfig w of
              Inl e \<Rightarrow> Inl e
            | Inr globalCfg \<Rightarrow>
                (case GetTemplate globalCfg mode of
                   None \<Rightarrow> Inl (UnknownMode mode (map fst (ListTemplates globalCfg)))
                 | Some tpl \<Rightarrow> Inr (NewCreatorWithTemplate appName tpl))))"

definition runNew :: "ext \<Rightarrow> world \<Rightarrow> string \<Rightarrow> string \<Rightarrow> io" where
  "runNew x w appName mode =
     (case selectCreator w appName mode of
        Inl e \<Rightarrow> io_fail e
      | Inr creator \<Rightarrow> Create x w creator)"

section \<open>Concrete worlds and inputs\<close>

text \<open>
  A stand-in for \<open>strconv.Quote\<close> that agrees with it on printable ASCII: the string in
  double quotes, with a backslash before each double quote and each backslash.
\<close>

definition quoteAscii :: "string \<Rightarrow> string" where
  "quoteAscii s =
     CHR 0x22 # concat (map (\<lambda>ch. if ch = CHR 0x22 \<or> ch = CHR 0x5C then [CHR 0x5C, ch] else [ch]) s)
       @ [CHR 0x22]"

definition sampleExt :: ext where
  "sampleExt =
     \<lparr>quote = quoteAscii,
      SimpleMainTemplate = (\<lambda>name. ''package main // simple '' @ name),
      SimpleReadmeTemplate = (\<lambda>name. ''# '' @ name),
      GitignoreTemplate = (\<lambda>name. ''bin/''),
      ProjectMainTemplate = (\<lambda>name. ''package main // project '' @ name),
      ProjectReadmeTemplate = (\<lambda>name. ''# '' @ name @ '' (project)'')\<rparr>"

text \<open>
  The two example templates of \<open>GlobalConfigTemplate\<close> that declare commands, and a
  template whose base mode is not a built-in one.
\<close>

definition tplApi :: TemplateConfig where
  "tplApi =
     \<lparr>Description = ''Web API project with common structure'',
      Mode = ''project'',
      Dirs = [''api'', ''configs'', ''scripts''],
      Files = [],
      Commands = [(''dev'', ''go run cmd/server/main.go -env=dev''),
                  (''lint'', ''golangci-lint run ./...'')]\<rparr>"

definition tplLib :: TemplateConfig where
  "tplLib =
     \<lparr>Description = ''Go library project'',
      Mode = ''simple'',
      Dirs = [''examples''],
      Files = [],
      Commands = [(''test'', ''go test -v -cover ./...''),
                  (''bench'', ''go test -bench=. ./...'')]\<rparr>"

definition tplWeb :: TemplateConfig where
  "tplWeb =
     \<lparr>Description = [], Mode = ''web'', Dirs = [], Files = [], Commands = []\<rparr>"

definition sampleConfig :: GlobalConfig where
  \<comment> \<open>a registry in which a template is named like a built-in mode\<close>
  "sampleConfig =
     \<lparr>Templates = [(''api'', tplApi), (''simple'', tplApi), (''lib'', tplLib), (''svc'', tplWeb)],
      Defaults = \<lparr>Author = ''me'', License = ''MIT''\<rparr>\<rparr>"

text \<open>
  A fresh disk on which every call succeeds and a \<open>range\<close> loop visits the entries as the
  list has them; the configuration file is there and decodes to \<open>sampleConfig\<close>.
\<close>

definition freshWorld :: world where
  "freshWorld =
     \<lparr>os_Stat = (\<lambda>p. if p = Join [Join [Str ''/home/u'', Str ''.gocar''], Str ''config.toml'']
                      then None else Some ErrNotExist),
      perform = (\<lambda>tr a. None),
      rangeOrder = (\<lambda>site m. m),
      os_UserHomeDir = Inr ''/home/u'',
      toml_DecodeFile = (\<lambda>p config. Inr sampleConfig)\<rparr>"

text \<open>The same world with a runtime that visits every map backwards.\<close>

definition reversedWorld :: world where
  "reversedWorld = freshWorld\<lparr>rangeOrder := (\<lambda>site m. rev m)\<rparr>"

text \<open>A disk on which the project directory is already there.\<close>

definition occupiedWorld :: world where
  "occupiedWorld = freshWorld\<lparr>os_Stat := (\<lambda>p. None)\<rparr>"

text \<open>A disk on which \<open>os.Stat\<close> is refused.\<close>

definition forbiddenWorld :: world where
  "forbiddenWorld = freshWorld\<lparr>os_Stat := (\<lambda>p. Some ErrPermission)\<rparr>"

text \<open>A user without a configuration file.\<close>

definition bareWorld :: world where
  "bareWorld = freshWorld\<lparr>os_Stat := (\<lambda>p. Some ErrNotExist)\<rparr>"

section \<open>The calls of a run without failure\<close>

text \<open>
  What each part of the creator issues when no call fails, written out as lists, so that
  the theorems below can say what a successful run did and in which order.
\<close>

definition simpleCalls :: "ext \<Rightarrow> string \<Rightarrow> call list" where
  "simpleCalls x name =
     [MkdirAll (Str name),
      MkdirAll (Join [Str name, Str ''bin'']),
      RunCommandSilent name [''go'', ''mod'', ''init'', name],
      WriteFile (Join [Str name, Str ''main.go'']) (SimpleMainTemplate x name),
      WriteFile (Join [Str name, Str ''README.md'']) (SimpleReadmeTemplate x name),
      WriteFile (Join [Str name, Str ''.gitignore'']) (GitignoreTemplate x name)]"

definition projectCalls :: "ext \<Rightarrow> string \<Rightarrow> call list" where
  "projectCalls x name =
     [MkdirAll (Str name),
      MkdirAll (Join [Str name, Str ''cmd'', Str ''server'']),
      MkdirAll (Join [Str name, Str ''internal'']),
      MkdirAll (Join [Str name, Str ''pkg'']),
      MkdirAll (Join [Str name, Str ''test'']),
      MkdirAll (Join [Str name, Str ''bin'']),
      RunCommandSilent name [''go'', ''mod'', ''init'', name],
      WriteFile (Join [Str name, Str ''cmd'', Str ''server'', Str ''main.go''])
        (ProjectMainTemplate x name),
      WriteFile (Join [Str name, Str ''internal'', Str ''.gitkeep'']) [],
      WriteFile (Join [Str name, Str ''pkg'', Str ''.gitkeep'']) [],
      WriteFile (Join [Str name, Str ''test'', Str ''.gitkeep'']) [],
      WriteFile (Join [Str name, Str ''README.md'']) (ProjectReadmeTemplate x name),
      WriteFile (Join [Str name, Str ''.gitignore'']) (GitignoreTemplate x name)]"

definition dirCalls :: "string \<Rightarrow> string list \<Rightarrow> call list" where
  "dirCalls name dirs =
     concat (map (\<lambda>dir. [MkdirAll (Join [Str name, Str dir]),
                           WriteFile (Join [Join [Str name, Str dir], Str ''.gitkeep'']) []]) dirs)"

definition fileCalls :: "string \<Rightarrow> gomap \<Rightarrow> call list" where
  "fileCalls name files =
     concat (map (\<lambda>(filePath, content).
                    [MkdirAll (Dir (Join [Str name, Str filePath])),
                     WriteFile (Join [Str name, Str filePath]) content]) files)"

definition gitCalls :: "world \<Rightarrow> trace \<Rightarrow> string \<Rightarrow> call list" where
  \<comment> \<open>the end of \<open>Create\<close>: the call of \<open>util.InitGit\<close> and, if it failed, the warning\<close>
  "gitCalls w tr name =
     (case perform w tr (InitGit name) of
        Some e \<Rightarrow> [InitGit name, PrintWarning e]
      | None \<Rightarrow> [InitGit name])"

fun occurs_before :: "'a \<Rightarrow> 'a \<Rightarrow> 'a list \<Rightarrow> bool" where
  \<comment> \<open>\<open>b\<close> occurs after the first \<open>a\<close>\<close>
  "occurs_before a b [] = False"
| "occurs_before a b (x # xs) = (if x = a then b \<in> set xs else occurs_before a b xs)"

definition commandsVisited :: "world \<Rightarrow> TemplateConfig \<Rightarrow> gomap" where
  \<comment> \<open>the merged commands in the order in which the loop of \<open>generateTemplateConfigContent\<close>
      visits them\<close>
  "commandsVisited w t = rangeOrder w RangeCommands (mergeCommands w t)"

definition baseCalls :: "ext \<Rightarrow> Creator \<Rightarrow> call list" where
  \<comment> \<open>the base layout as \<open>createFromTemplate\<close> chooses it\<close>
  "baseCalls x c =
     (if Creator.Mode c = ''simple'' then simpleCalls x (Name c) else projectCalls x (Name c))"

definition templatedCalls :: "ext \<Rightarrow> world \<Rightarrow> Creator \<Rightarrow> TemplateConfig \<Rightarrow> call list" where
  "templatedCalls x w c t =
     baseCalls x c
       @ dirCalls (Name c) (Dirs t)
       @ fileCalls (Name c) (rangeOrder w RangeFiles (Files t))
       @ [WriteFile (Join [Str (Name c), Str ConfigFileName])
            (generateTemplateConfigContent x w c (mergeCommands w t))]"

section \<open>Reading the generated text\<close>

text \<open>
  To say what the generated configuration tells its reader, a small reader for the shape
  of text that \<open>generateTemplateConfigContent\<close> emits. The text is split at newlines.
  A line is blank, a comment (it starts with \<open>#\<close>), a table header \<open>[table]\<close>, or a
  pair \<open>key = value\<close> with a bare key and a value that is a string in double quotes
  (without escapes) or a boolean, followed by nothing but blanks and a comment.
  \<open>tomlString table key\<close> is the string of the first pair with that key inside that
  table; the reader gives up (\<open>None\<close>) at the first line that has none of these forms.
\<close>

fun linesFrom :: "string \<Rightarrow> string \<Rightarrow> string list" where
  \<comment> \<open>the lines of a text, \<open>cur\<close> being the current line read so far, backwards\<close>
  "linesFrom cur [] = [rev cur]"
| "linesFrom cur (ch # s) =
     (if ch = CHR 0x0A then rev cur # linesFrom [] s else linesFrom (ch # cur) s)"

definition splitLines :: "string \<Rightarrow> string list" where
  "splitLines s = linesFrom [] s"

definition isBlank :: "string \<Rightarrow> bool" where
  "isBlank l = list_all (\<lambda>ch. ch = CHR '' '' \<or> ch = CHR 0x09) l"

definition trailingOk :: "string \<Rightarrow> bool" where
  \<comment> \<open>what may follow a value: blanks, then nothing or a comment\<close>
  "trailingOk s =
     (case dropWhile (\<lambda>ch. ch = CHR '' '' \<or> ch = CHR 0x09) s of
        [] \<Rightarrow> True
      | ch # _ \<Rightarrow> ch = CHR ''#'')"

definition tableOf :: "string \<Rightarrow> string option" where
  "tableOf l =
     (case l of
        [] \<Rightarrow> None
      | ch # s \<Rightarrow> if ch = CHR ''['' \<and> s \<noteq> [] \<and> last s = CHR '']'' then Some (butlast s) else None)"

definition bareKeyChar :: "char \<Rightarrow> bool" where
  "bareKeyChar ch \<longleftrightarrow>
     ch \<in> set ''abcdefghijklmnopqrstuvwxyzABCDEFGHIJKLMNOPQRSTUVWXYZ0123456789_-''"

definition keyValue :: "string \<Rightarrow> (string \<times> string) option" where
  \<comment> \<open>\<open>key = value\<close>: the key and the text after the equals sign and its blank\<close>
  "keyValue l =
     (let key = takeWhile (\<lambda>ch. ch \<noteq> CHR '' '') l; rest = dropWhile (\<lambda>ch. ch \<noteq> CHR '' '') l
      in if key \<noteq> [] \<and> list_all bareKeyChar key \<and> take 3 rest = '' = ''
         then Some (key, drop 3 rest) else None)"

definition stringValue :: "string \<Rightarrow> string option" where
  \<comment> \<open>a string in double quotes, without backslash, with nothing but a comment after it\<close>
  "stringValue v =
     (case v of
        [] \<Rightarrow> None
      | ch # s \<Rightarrow>
          if ch \<noteq> CHR 0x22 then None
          else (case dropWhile (\<lambda>ch. ch \<noteq> CHR 0x22) s of
                  [] \<Rightarrow> None
                | _ # trail \<Rightarrow>
                    if CHR 0x5C \<in> set (takeWhile (\<lambda>ch. ch \<noteq> CHR 0x22) s) \<or> \<not> trailingOk trail
                    then None
                    else Some (takeWhile (\<lambda>ch. ch \<noteq> CHR 0x22) s)))"

definition boolValue :: "string \<Rightarrow> bool" where
  "boolValue v =
     (let tok = takeWhile (\<lambda>ch. ch \<noteq> CHR '' '') v
      in (tok = ''true'' \<or> tok = ''false'') \<and> trailingOk (dropWhile (\<lambda>ch. ch \<noteq> CHR '' '') v))"

fun lookupIn :: "string \<Rightarrow> string \<Rightarrow> bool \<Rightarrow> string list \<Rightarrow> string option" where
  "lookupIn table key inside [] = None"
| "lookupIn table key inside (l # ls) =
     (if isBlank l \<or> (l \<noteq> [] \<and> hd l = CHR ''#'') then lookupIn table key inside ls
      else (case tableOf l of
              Some t \<Rightarrow> lookupIn table key (t = table) ls
            | None \<Rightarrow>
                (case keyValue l of
                   None \<Rightarrow> None
                 | Some (k, v) \<Rightarrow>
                     (case stringValue v of
                        Some s \<Rightarrow> if inside \<and> k = key then Some s else lookupIn table key inside ls
                      | None \<Rightarrow>
                          if boolValue v \<and> \<not> (inside \<and> k = key) then lookupIn table key inside ls
                          else None))))"

definition tomlString :: "string \<Rightarrow> string \<Rightarrow> string \<Rightarrow> string option" where
  "tomlString table key txt = lookupIn table key False (splitLines txt)"

definition plainName :: "string \<Rightarrow> bool" where
  \<comment> \<open>a name that can stand between double quotes as it is: the name is written unescaped\<close>
  "plainName name \<longleftrightarrow>
     CHR 0x0A \<notin> set name \<and> CHR 0x22 \<notin> set name \<and> CHR 0x5C \<notin> set name"

section \<open>The existence check of Create\<close>

lemma Create_occupied:
  "\<not> os_IsNotExist (os_Stat w (Str (Name c))) \<Longrightarrow>
   Create x w c tr = (Some (AlreadyExists (Name c)), tr)"
  by (simp add: Create_def io_fail_def)

text \<open>
  Claim C7. When the project's root path is already on disk (\<open>os.Stat\<close> succeeds),
  \<open>Create\<close> returns the already-exists error and issues no call at all: the record of
  calls is the one it was given, so no directory or file is created or changed.
\<close>

theorem Create_existing_root_fails_without_writes:
  "os_Stat w (Str (Name c)) = None \<Longrightarrow>
   Create x w c tr = (Some (AlreadyExists (Name c)), tr)"
  by (rule Create_occupied) (simp add: os_IsNotExist_def)

theorem Create_existing_root_witness:
  "os_Stat occupiedWorld (Str (Name (NewCreatorWithTemplate ''app'' tplApi))) = None \<and>
   Create sampleExt occupiedWorld (NewCreatorWithTemplate ''app'' tplApi) [] =
     (Some (AlreadyExists ''app''), [])"
  using Create_existing_root_fails_without_writes
    [of occupiedWorld "NewCreatorWithTemplate ''app'' tplApi" sampleExt "[]"]
  by (simp add: occupiedWorld_def freshWorld_def NewCreatorWithTemplate_def)

text \<open>
  Claim C10. The check asks only whether the error of \<open>os.Stat\<close> is a does-not-exist
  error. Any other error (a permission error, say) is taken for an occupied path:
  \<open>Create\<close> returns the already-exists error, not an I/O error, and issues no call.
\<close>

theorem Create_stat_error_counts_as_occupied:
  "os_Stat w (Str (Name c)) = Some e \<Longrightarrow> e \<noteq> ErrNotExist \<Longrightarrow>
   Create x w c tr = (Some (AlreadyExists (Name c)), tr)"
  by (rule Create_occupied) (simp add: os_IsNotExist_def)

theorem Create_stat_error_witness:
  "os_Stat forbiddenWorld (Str (Name (NewCreator ''app'' ''simple''))) = Some ErrPermission \<and>
   ErrPermission \<noteq> ErrNotExist \<and>
   Create sampleExt forbiddenWorld (NewCreator ''app'' ''simple'') [] =
     (Some (AlreadyExists ''app''), [])"
  using Create_stat_error_counts_as_occupied
    [of forbiddenWorld "NewCreator ''app'' ''simple''" ErrPermission sampleExt "[]"]
  by (simp add: forbiddenWorld_def freshWorld_def NewCreator_def)

section \<open>Sequencing and the calls of a successful run\<close>

lemma io_then_ok_iff:
  "io_then m k tr = (None, tr') \<longleftrightarrow> (\<exists>tr1. m tr = (None, tr1) \<and> k tr1 = (None, tr'))"
  by (auto simp: io_then_def split: prod.splits option.splits)

lemma issue_ok_iff:
  "issue w a wrap tr = (None, tr') \<longleftrightarrow> perform w tr a = None \<and> tr' = tr @ [a]"
  by (auto simp: issue_def)

lemma io_ok_iff: "io_ok tr = (None, tr') \<longleftrightarrow> tr' = tr"
  by (auto simp: io_ok_def)

lemma mkdirAll_each_ok:
  "mkdirAll_each w ds tr = (None, tr') \<Longrightarrow> tr' = tr @ map MkdirAll ds"
proof (induction ds arbitrary: tr)
  case Nil
  then show ?case by (simp add: io_ok_iff)
next
  case (Cons d ds)
  from Cons.prems have "mkdirAll_each w ds (tr @ [MkdirAll d]) = (None, tr')"
    by (auto simp: io_then_ok_iff issue_ok_iff os_MkdirAll_def)
  from Cons.IH [OF this] show ?case by simp
qed

lemma writeFile_each_ok:
  "writeFile_each w fs tr = (None, tr') \<Longrightarrow> tr' = tr @ map (\<lambda>f. WriteFile f []) fs"
proof (induction fs arbitrary: tr)
  case Nil
  then show ?case by (simp add: io_ok_iff)
next
  case (Cons f fs)
  from Cons.prems have "writeFile_each w fs (tr @ [WriteFile f []]) = (None, tr')"
    by (auto simp: io_then_ok_iff issue_ok_iff util_WriteFile_def)
  from Cons.IH [OF this] show ?case by simp
qed

lemma templateDirs_ok:
  "templateDirs w name dirs tr = (None, tr') \<Longrightarrow> tr' = tr @ dirCalls name dirs"
proof (induction dirs arbitrary: tr)
  case Nil
  then show ?case by (simp add: io_ok_iff dirCalls_def)
next
  case (Cons d ds)
  from Cons.prems have "templateDirs w name ds
      (tr @ [MkdirAll (Join [Str name, Str d]),
             WriteFile (Join [Join [Str name, Str d], Str ''.gitkeep'']) []]) = (None, tr')"
    by (auto simp: io_then_ok_iff issue_ok_iff os_MkdirAll_def util_WriteFile_def)
  from Cons.IH [OF this] show ?case by (simp add: dirCalls_def)
qed

lemma templateFiles_ok:
  "templateFiles w name files tr = (None, tr') \<Longrightarrow> tr' = tr @ fileCalls name files"
proof (induction files arbitrary: tr)
  case Nil
  then show ?case by (simp add: io_ok_iff fileCalls_def)
next
  case (Cons f fs)
  obtain filePath content where f: "f = (filePath, content)" by (cases f)
  from Cons.prems have "templateFiles w name fs
      (tr @ [MkdirAll (Dir (Join [Str name, Str filePath])),
             WriteFile (Join [Str name, Str filePath]) content]) = (None, tr')"
    by (auto simp: f io_then_ok_iff issue_ok_iff os_MkdirAll_def util_WriteFile_def)
  from Cons.IH [OF this] show ?case by (simp add: fileCalls_def f)
qed

lemma initGit_eq: "initGit w name tr = (None, tr @ gitCalls w tr name)"
  by (simp add: initGit_def gitCalls_def split: option.splits)

lemma createSimpleProject_calls:
  "createSimpleProject x w c tr = (None, tr') \<Longrightarrow> tr' = tr @ simpleCalls x (Name c)"
  by (auto simp: createSimpleProject_def simpleCalls_def io_then_ok_iff issue_ok_iff io_ok_iff
        os_MkdirAll_def util_WriteFile_def goModInit_def)

lemma createProjectMode_calls:
  "createProjectMode x w c tr = (None, tr') \<Longrightarrow> tr' = tr @ projectCalls x (Name c)"
  by (auto simp: createProjectMode_def projectCalls_def io_then_ok_iff issue_ok_iff io_ok_iff
        os_MkdirAll_def util_WriteFile_def goModInit_def)

lemma Create_free_root:
  "os_Stat w (Str (Name c)) = Some ErrNotExist \<Longrightarrow>
   Create x w c = io_then
             (if Template c \<noteq> None then createFromTemplate x w c
              else if Creator.Mode c = ''simple'' then createSimpleProject x w c
              else createProjectMode x w c)
             (initGit w (Name c))"
  by (rule ext) (simp add: Create_def os_IsNotExist_def)

lemma git_no_config:
  "WriteFile p content \<notin> set (gitCalls w tr name)"
  by (simp add: gitCalls_def split: option.splits)

section \<open>The simple layout\<close>

text \<open>
  Claim C9. For a creator of the built-in mode \<open>simple\<close> (no template) whose root path
  is not on disk, a creation that succeeds issues exactly these calls, in this order: the
  root directory, its \<open>bin\<close> subdirectory, \<open>go mod init\<close> in the root, the entry
  file \<open>main.go\<close>, \<open>README.md\<close> and \<open>.gitignore\<close>, followed by the initialisation
  of version control that ends every creation. None of the calls writes the project's
  configuration file, whatever its content.
\<close>

theorem simple_mode_creates_exactly_the_simple_layout:
  assumes "Template c = None" and "Creator.Mode c = ''simple''"
    and "os_Stat w (Str (Name c)) = Some ErrNotExist"
    and "Create x w c tr = (None, tr')"
  shows "tr' = tr @
           [MkdirAll (Str (Name c)),
            MkdirAll (Join [Str (Name c), Str ''bin'']),
            RunCommandSilent (Name c) [''go'', ''mod'', ''init'', Name c],
            WriteFile (Join [Str (Name c), Str ''main.go'']) (SimpleMainTemplate x (Name c)),
            WriteFile (Join [Str (Name c), Str ''README.md'']) (SimpleReadmeTemplate x (Name c)),
            WriteFile (Join [Str (Name c), Str ''.gitignore'']) (GitignoreTemplate x (Name c))]
           @ gitCalls w (tr @ simpleCalls x (Name c)) (Name c)
         \<and> WriteFile (Join [Str (Name c), Str ConfigFileName]) content
             \<notin> set (drop (length tr) tr')"
proof -
  from assms obtain tr1 where base: "createSimpleProject x w c tr = (None, tr1)"
    and git: "initGit w (Name c) tr1 = (None, tr')"
    by (auto simp: Create_free_root io_then_ok_iff)
  from base have tr1: "tr1 = tr @ simpleCalls x (Name c)"
    by (rule createSimpleProject_calls)
  from git have tr': "tr' = tr1 @ gitCalls w tr1 (Name c)"
    by (simp add: initGit_eq)
  show ?thesis
    by (simp add: tr' tr1 git_no_config) (simp add: simpleCalls_def ConfigFileName_def)
qed

theorem simple_mode_witness:
  "Template (NewCreator ''app'' ''simple'') = None \<and>
   Creator.Mode (NewCreator ''app'' ''simple'') = ''simple'' \<and>
   os_Stat freshWorld (Str ''app'') = Some ErrNotExist \<and>
   Create sampleExt freshWorld (NewCreator ''app'' ''simple'') [] =
     (None,
      [MkdirAll (Str ''app''),
       MkdirAll (Join [Str ''app'', Str ''bin'']),
       RunCommandSilent ''app'' [''go'', ''mod'', ''init'', ''app''],
       WriteFile (Join [Str ''app'', Str ''main.go'']) ''package main // simple app'',
       WriteFile (Join [Str ''app'', Str ''README.md'']) ''# app'',
       WriteFile (Join [Str ''app'', Str ''.gitignore'']) ''bin/'',
       InitGit ''app'']) \<and>
   WriteFile (Join [Str ''app'', Str ''.gocar.toml'']) ''x''
     \<notin> set (snd (Create sampleExt freshWorld (NewCreator ''app'' ''simple'') []))"
  using simple_mode_creates_exactly_the_simple_layout
    [of "NewCreator ''app'' ''simple''" freshWorld sampleExt "[]"
        "snd (Create sampleExt freshWorld (NewCreator ''app'' ''simple'') [])" "''x''"]
  by (simp add: NewCreator_def freshWorld_def sampleExt_def Create_def os_IsNotExist_def
        createSimpleProject_def io_then_def io_ok_def issue_def os_MkdirAll_def
        util_WriteFile_def goModInit_def initGit_def gitCalls_def ConfigFileName_def)

section \<open>Mode resolution\<close>

lemma LoadGlobalConfig_freshWorld: "LoadGlobalConfig freshWorld = Inr sampleConfig"
  by (simp add: LoadGlobalConfig_def GetGlobalConfigPath_def GetGlobalConfigDir_def
      freshWorld_def GlobalConfigDir_def GlobalConfigFileName_def os_IsNotExist_def)

text \<open>
  Claim C1. The tokens \<open>simple\<close> and \<open>project\<close> select the creator of the built-in
  mode, which carries no template, in every world: the global configuration is not even
  consulted, so a template registered under either name is never selected. The creation
  that follows runs the built-in layout of that mode.
\<close>

theorem builtin_tokens_select_builtin_creator:
  "selectCreator w appName ''simple'' =
     Inr \<lparr>Name = appName, Mode = ''simple'', Template = None\<rparr> \<and>
   selectCreator w appName ''project'' =
     Inr \<lparr>Name = appName, Mode = ''project'', Template = None\<rparr> \<and>
   runNew x w appName ''simple'' =
     (if os_IsNotExist (os_Stat w (Str appName))
      then io_then (createSimpleProject x w (NewCreator appName ''simple'')) (initGit w appName)
      else io_fail (AlreadyExists appName)) \<and>
   runNew x w appName ''project'' =
     (if os_IsNotExist (os_Stat w (Str appName))
      then io_then (createProjectMode x w (NewCreator appName ''project'')) (initGit w appName)
      else io_fail (AlreadyExists appName))"
  by (simp add: selectCreator_def runNew_def NewCreator_def Create_def)

text \<open>
  In \<open>freshWorld\<close> the registry has a template named \<open>simple\<close>; the token \<open>api\<close>
  selects a template there, the token \<open>simple\<close> does not.
\<close>

theorem builtin_tokens_witness:
  "GetTemplate sampleConfig ''simple'' = Some tplApi \<and>
   LoadGlobalConfig freshWorld = Inr sampleConfig \<and>
   selectCreator freshWorld ''app'' ''api'' = Inr (NewCreatorWithTemplate ''app'' tplApi) \<and>
   selectCreator freshWorld ''app'' ''simple'' =
     Inr \<lparr>Name = ''app'', Mode = ''simple'', Template = None\<rparr> \<and>
   selectCreator freshWorld ''app'' ''project'' =
     Inr \<lparr>Name = ''app'', Mode = ''project'', Template = None\<rparr>"
  using builtin_tokens_select_builtin_creator [of freshWorld "''app''" sampleExt]
  by (simp add: LoadGlobalConfig_freshWorld GetTemplate_def sampleConfig_def)
     (simp add: selectCreator_def LoadGlobalConfig_freshWorld GetTemplate_def sampleConfig_def)

section \<open>Loading the global configuration\<close>

text \<open>
  Claim C8. When the home directory is known and no file is at the well-known path
  \<open>~/.gocar/config.toml\<close>, \<open>LoadGlobalConfig\<close> succeeds with a configuration that
  has no template (every lookup fails) and whose default license is \<open>MIT\<close>.
\<close>

theorem LoadGlobalConfig_without_file:
  assumes "os_UserHomeDir w = Inr homeDir"
    and "os_Stat w (Join [Join [Str homeDir, Str ''.gocar''], Str ''config.toml''])
           = Some ErrNotExist"
  shows "\<exists>cfg. LoadGlobalConfig w = Inr cfg \<and> Templates cfg = [] \<and>
           GetTemplate cfg name = None \<and> License (Defaults cfg) = ''MIT''"
  using assms
  by (simp add: LoadGlobalConfig_def GetGlobalConfigPath_def GetGlobalConfigDir_def
      GlobalConfigDir_def GlobalConfigFileName_def os_IsNotExist_def DefaultGlobalConfig_def
      GetTemplate_def)

theorem LoadGlobalConfig_without_file_witness:
  "os_UserHomeDir bareWorld = Inr ''/home/u'' \<and>
   os_Stat bareWorld (Join [Join [Str ''/home/u'', Str ''.gocar''], Str ''config.toml''])
     = Some ErrNotExist \<and>
   LoadGlobalConfig bareWorld =
     Inr \<lparr>Templates = [], Defaults = \<lparr>Author = [], License = ''MIT''\<rparr>\<rparr>"
  using LoadGlobalConfig_without_file [of bareWorld "''/home/u''" "''api''"]
  by (simp add: bareWorld_def freshWorld_def)
     (simp add: LoadGlobalConfig_def GetGlobalConfigPath_def GetGlobalConfigDir_def
      GlobalConfigDir_def GlobalConfigFileName_def os_IsNotExist_def DefaultGlobalConfig_def)

section \<open>The merged command set\<close>

lemma map_of_foldl_update:
  "map_of (foldl (\<lambda>commands (name, cmd). AList.update name cmd commands) m0 xs)
     = map_of m0 ++ map_of (rev xs)"
proof (induction xs arbitrary: m0)
  case Nil
  then show ?case by simp
next
  case (Cons p ps)
  obtain name cmd where p: "p = (name, cmd)" by (cases p)
  have "map_of (foldl (\<lambda>commands (name, cmd). AList.update name cmd commands) m0 (p # ps))
          = map_of (AList.update name cmd m0) ++ map_of (rev ps)"
    by (simp add: p Cons.IH)
  also have "\<dots> = (map_of m0)(name \<mapsto> cmd) ++ map_of (rev ps)"
    by (simp only: update_conv')
  also have "\<dots> = map_of m0 ++ map_of (rev (p # ps))"
    by (simp add: p)
  finally show ?case .
qed

lemma distinct_foldl_update:
  "distinct (map fst m0) \<Longrightarrow>
   distinct (map fst (foldl (\<lambda>commands (name, cmd). AList.update name cmd commands) m0 xs))"
  by (induction xs arbitrary: m0) (auto simp: distinct_update)

lemma range_keeps_map:
  assumes "mset ys = mset xs" and "distinct (map fst xs)"
  shows "map_of (rev ys) = map_of xs"
proof -
  have "mset (map fst ys) = mset (map fst xs)"
    using assms(1) by (metis mset_map)
  then have d: "distinct (map fst ys)"
    using assms(2) by (metis mset_eq_imp_distinct_iff)
  have "set ys = set xs"
    using assms(1) by (rule mset_eq_setD)
  then have s: "set (rev ys) = set xs" by simp
  from d have "distinct (map fst (rev ys))" by (simp add: rev_map [symmetric])
  then show ?thesis
    using assms(2) s by (simp add: map_of_inject_set)
qed

lemma map_of_mergeCommands:
  assumes "range_ok w" and "distinct (map fst (Commands t))"
  shows "map_of (mergeCommands w t) = map_of builtinCommands ++ map_of (Commands t)"
proof -
  have "mset (rangeOrder w RangeTemplateCommands (Commands t)) = mset (Commands t)"
    using assms by (simp add: range_ok_def)
  then have "map_of (rev (rangeOrder w RangeTemplateCommands (Commands t))) = map_of (Commands t)"
    using assms(2) by (rule range_keeps_map)
  then show ?thesis
    by (simp add: mergeCommands_def map_of_foldl_update)
qed

lemma distinct_builtinCommands: "distinct (map fst builtinCommands)"
  by (simp add: builtinCommands_def)

lemma distinct_mergeCommands: "distinct (map fst (mergeCommands w t))"
  unfolding mergeCommands_def by (rule distinct_foldl_update) (rule distinct_builtinCommands)

lemma range_ok_freshWorld: "range_ok freshWorld"
  by (simp add: range_ok_def freshWorld_def)

lemma range_ok_reversedWorld: "range_ok reversedWorld"
  by (simp add: range_ok_def reversedWorld_def)

text \<open>
  Claim C6. Whatever order the runtime visits the template's commands in, the map
  \<open>commands\<close> that \<open>createTemplateConfig\<close> builds is the built-in triad overlaid by the
  template's entries: a name the template declares has the template's command (a new name
  is added, \<open>vet\<close>, \<open>fmt\<close> or \<open>test\<close> is replaced), any other name has its built-in
  command or none. No key occurs twice, the keys are the three built-in names and the
  template's, and the command section has one line for each entry of this map.
\<close>

theorem merged_commands_are_builtins_overlaid_by_template:
  assumes "range_ok w" and "distinct (map fst (Commands t))"
  shows "map_of (mergeCommands w t) name =
           (case map_of (Commands t) name of
              Some cmd \<Rightarrow> Some cmd
            | None \<Rightarrow> map_of [(''vet'', ''go vet ./...''), (''fmt'', ''go fmt ./...''),
                              (''test'', ''go test -v ./...'')] name)
         \<and> distinct (map fst (mergeCommands w t))
         \<and> fst ` set (mergeCommands w t) = {''vet'', ''fmt'', ''test''} \<union> fst ` set (Commands t)
         \<and> mset (rangeOrder w RangeCommands (mergeCommands w t)) = mset (mergeCommands w t)"
proof -
  have m: "map_of (mergeCommands w t) = map_of builtinCommands ++ map_of (Commands t)"
    using assms by (rule map_of_mergeCommands)
  have 1: "map_of (mergeCommands w t) name =
           (case map_of (Commands t) name of
              Some cmd \<Rightarrow> Some cmd
            | None \<Rightarrow> map_of [(''vet'', ''go vet ./...''), (''fmt'', ''go fmt ./...''),
                              (''test'', ''go test -v ./...'')] name)"
    unfolding m by (simp add: map_add_def builtinCommands_def split: option.splits)
  have "dom (map_of (mergeCommands w t)) = dom (map_of builtinCommands) \<union> dom (map_of (Commands t))"
    unfolding m by auto
  then have 3: "fst ` set (mergeCommands w t) = {''vet'', ''fmt'', ''test''} \<union> fst ` set (Commands t)"
    by (simp add: dom_map_of_conv_image_fst builtinCommands_def insert_commute)
  have 4: "mset (rangeOrder w RangeCommands (mergeCommands w t)) = mset (mergeCommands w t)"
    using assms(1) distinct_mergeCommands by (simp add: range_ok_def)
  from 1 3 4 distinct_mergeCommands [of w t] show ?thesis by (intro conjI)
qed

theorem merged_commands_witness:
  "range_ok freshWorld \<and> distinct (map fst (Commands tplLib)) \<and>
   map_of (mergeCommands freshWorld tplLib) ''test'' = Some ''go test -v -cover ./...'' \<and>
   map_of (mergeCommands freshWorld tplLib) ''bench'' = Some ''go test -bench=. ./...'' \<and>
   map_of (mergeCommands freshWorld tplLib) ''vet'' = Some ''go vet ./...'' \<and>
   map_of (mergeCommands freshWorld tplLib) ''fmt'' = Some ''go fmt ./...'' \<and>
   map_of (mergeCommands freshWorld tplLib) ''dev'' = None \<and>
   fst ` set (mergeCommands freshWorld tplLib) = {''vet'', ''fmt'', ''test'', ''bench''}"
  using merged_commands_are_builtins_overlaid_by_template [of freshWorld tplLib "''test''"]
    merged_commands_are_builtins_overlaid_by_template [of freshWorld tplLib "''bench''"]
    merged_commands_are_builtins_overlaid_by_template [of freshWorld tplLib "''vet''"]
    merged_commands_are_builtins_overlaid_by_template [of freshWorld tplLib "''fmt''"]
    merged_commands_are_builtins_overlaid_by_template [of freshWorld tplLib "''dev''"]
  by (simp add: range_ok_freshWorld tplLib_def insert_commute)

section \<open>The text of the configuration and the order of its commands\<close>

lemma foldl_append_concat:
  "foldl (\<lambda>s e. s @ f e) acc xs = acc @ concat (map f xs)"
  by (induction xs arbitrary: acc) simp_all

lemma cmdSection_concat:
  "cmdSection x w commands = concat (map (commandLine x) (rangeOrder w RangeCommands commands))"
  by (simp add: cmdSection_def foldl_append_concat)

lemma mset_mergeCommands:
  assumes "range_ok w1" and "range_ok w2" and "distinct (map fst (Commands t))"
  shows "mset (mergeCommands w1 t) = mset (mergeCommands w2 t)"
proof -
  have "map_of (mergeCommands w1 t) = map_of (mergeCommands w2 t)"
    using assms by (simp add: map_of_mergeCommands)
  then have s: "set (mergeCommands w1 t) = set (mergeCommands w2 t)"
    using distinct_mergeCommands [of w1 t] distinct_mergeCommands [of w2 t]
    by (simp add: map_of_inject_set)
  have "distinct (mergeCommands w1 t)" and "distinct (mergeCommands w2 t)"
    using distinct_mergeCommands [of w1 t] distinct_mergeCommands [of w2 t]
    by (simp_all add: distinct_map)
  then show ?thesis
    using s by (simp add: set_eq_iff_mset_eq_distinct)
qed

text \<open>
  Claim C2, as the code has it. The text is the fixed preamble, filled with mode, name
  and build entry, followed by one line for each merged command in the order in which the
  runtime visits the map \<open>commands\<close>. Go does not fix that order, so for the same name,
  mode and template commands two runs agree on the preamble and on the lines as a
  multiset, and they yield the same text when they visit the commands in the same order.
\<close>

theorem config_text_determined_up_to_command_order:
  assumes "range_ok w1" and "range_ok w2" and "distinct (map fst (Commands t))"
  shows "generateTemplateConfigContent x w1 c (mergeCommands w1 t) =
           configText_head @ Creator.Mode c @ configText_after_mode @ Name c
             @ configText_after_name @ buildEntry c @ configText_after_entry
             @ concat (map (commandLine x) (commandsVisited w1 t))
         \<and> generateTemplateConfigContent x w2 c (mergeCommands w2 t) =
           configText_head @ Creator.Mode c @ configText_after_mode @ Name c
             @ configText_after_name @ buildEntry c @ configText_after_entry
             @ concat (map (commandLine x) (commandsVisited w2 t))
         \<and> mset (map (commandLine x) (commandsVisited w1 t))
             = mset (map (commandLine x) (commandsVisited w2 t))
         \<and> (commandsVisited w1 t = commandsVisited w2 t \<longrightarrow>
              generateTemplateConfigContent x w1 c (mergeCommands w1 t)
                = generateTemplateConfigContent x w2 c (mergeCommands w2 t))"
proof -
  have shape: "generateTemplateConfigContent x w c (mergeCommands w t) =
           configText_head @ Creator.Mode c @ configText_after_mode @ Name c
             @ configText_after_name @ buildEntry c @ configText_after_entry
             @ concat (map (commandLine x) (commandsVisited w t))" for w
    by (simp add: generateTemplateConfigContent_def cmdSection_concat commandsVisited_def)
  have visited: "mset (commandsVisited w t) = mset (mergeCommands w t)" if "range_ok w" for w
    using that distinct_mergeCommands [of w t] by (simp add: range_ok_def commandsVisited_def)
  have "mset (commandsVisited w1 t) = mset (commandsVisited w2 t)"
    using assms by (simp add: visited mset_mergeCommands [of w1 w2 t])
  then have lines: "mset (map (commandLine x) (commandsVisited w1 t))
             = mset (map (commandLine x) (commandsVisited w2 t))"
    by (metis mset_map)
  show ?thesis
    using lines by (simp add: shape)
qed

theorem config_text_witness:
  "range_ok freshWorld \<and> range_ok reversedWorld \<and> distinct (map fst (Commands tplLib)) \<and>
   commandsVisited freshWorld tplLib =
     [(''vet'', ''go vet ./...''), (''fmt'', ''go fmt ./...''),
      (''test'', ''go test -v -cover ./...''), (''bench'', ''go test -bench=. ./...'')] \<and>
   commandsVisited reversedWorld tplLib =
     [(''bench'', ''go test -bench=. ./...''), (''test'', ''go test -v -cover ./...''),
      (''fmt'', ''go fmt ./...''), (''vet'', ''go vet ./...'')] \<and>
   mset (map (commandLine sampleExt) (commandsVisited freshWorld tplLib))
     = mset (map (commandLine sampleExt) (commandsVisited reversedWorld tplLib))"
  using config_text_determined_up_to_command_order
    [of freshWorld reversedWorld tplLib sampleExt "NewCreatorWithTemplate ''app'' tplLib"]
  by (simp add: range_ok_freshWorld range_ok_reversedWorld)
     (simp add: commandsVisited_def mergeCommands_def reversedWorld_def freshWorld_def
        tplLib_def builtinCommands_def)

text \<open>
  Claim C2, as it is stated, fails: the same creator and the same template give two
  different texts in two worlds that differ only in the order of their \<open>range\<close> loops.
\<close>

theorem config_text_differs_between_runs:
  "range_ok freshWorld \<and> range_ok reversedWorld \<and>
   generateTemplateConfigContent sampleExt freshWorld
       (NewCreatorWithTemplate ''app'' tplLib) (mergeCommands freshWorld tplLib)
     \<noteq> generateTemplateConfigContent sampleExt reversedWorld
       (NewCreatorWithTemplate ''app'' tplLib) (mergeCommands reversedWorld tplLib)"
proof -
  have a: "cmdSection sampleExt freshWorld (mergeCommands freshWorld tplLib)
        = commandLine sampleExt (''vet'', ''go vet ./...'')
          @ concat (map (commandLine sampleExt)
              [(''fmt'', ''go fmt ./...''), (''test'', ''go test -v -cover ./...''),
               (''bench'', ''go test -bench=. ./...'')])"
    by (simp add: cmdSection_concat mergeCommands_def freshWorld_def tplLib_def
        builtinCommands_def)
  have b: "cmdSection sampleExt reversedWorld (mergeCommands reversedWorld tplLib)
        = commandLine sampleExt (''bench'', ''go test -bench=. ./...'')
          @ concat (map (commandLine sampleExt)
              [(''test'', ''go test -v -cover ./...''), (''fmt'', ''go fmt ./...''),
               (''vet'', ''go vet ./...'')])"
    by (simp add: cmdSection_concat mergeCommands_def reversedWorld_def freshWorld_def
        tplLib_def builtinCommands_def)
  show ?thesis
    by (simp add: range_ok_freshWorld range_ok_reversedWorld generateTemplateConfigContent_def
        a b commandLine_def)
qed

section \<open>The order of a templated creation\<close>

lemma createBase_calls:
  "createBase x w c tr = (None, tr') \<Longrightarrow> tr' = tr @ baseCalls x c"
  by (auto simp: createBase_def baseCalls_def
      dest: createSimpleProject_calls createProjectMode_calls)

lemma createFromTemplate_calls:
  assumes "Template c = Some t" and "createFromTemplate x w c tr = (None, tr')"
  shows "tr' = tr @ templatedCalls x w c t"
proof -
  from assms obtain tr1 tr2 tr3 where
    1: "createBase x w c tr = (None, tr1)" and
    2: "templateDirs w (Name c) (Dirs t) tr1 = (None, tr2)" and
    3: "templateFiles w (Name c) (rangeOrder w RangeFiles (Files t)) tr2 = (None, tr3)" and
    4: "createTemplateConfig x w c tr3 = (None, tr')"
    by (auto simp: createFromTemplate_def io_then_ok_iff)
  from 4 have "tr' = tr3 @ [WriteFile (Join [Str (Name c), Str ConfigFileName])
            (generateTemplateConfigContent x w c (mergeCommands w t))]"
    using assms(1) by (simp add: createTemplateConfig_def util_WriteFile_def issue_ok_iff)
  then show ?thesis
    using createBase_calls [OF 1] templateDirs_ok [OF 2] templateFiles_ok [OF 3]
    by (simp add: templatedCalls_def)
qed

lemma Create_template_calls:
  assumes "Template c = Some t" and "os_Stat w (Str (Name c)) = Some ErrNotExist"
    and "Create x w c tr = (None, tr')"
  shows "tr' = tr @ templatedCalls x w c t @ gitCalls w (tr @ templatedCalls x w c t) (Name c)"
proof -
  from assms obtain tr1 where 1: "createFromTemplate x w c tr = (None, tr1)"
    and 2: "initGit w (Name c) tr1 = (None, tr')"
    by (auto simp: Create_free_root io_then_ok_iff)
  from 2 have "tr' = tr1 @ gitCalls w tr1 (Name c)"
    by (simp add: initGit_eq)
  then show ?thesis
    using createFromTemplate_calls [OF assms(1) 1] by simp
qed

lemma InitGit_not_in_templatedCalls: "InitGit name \<notin> set (templatedCalls x w c t)"
  by (auto simp: templatedCalls_def baseCalls_def simpleCalls_def projectCalls_def
      dirCalls_def fileCalls_def)

lemma hd_gitCalls: "hd (gitCalls w tr name) = InitGit name"
  by (simp add: gitCalls_def split: option.splits)

lemma Create_freshWorld_api:
  "Create sampleExt freshWorld (NewCreatorWithTemplate ''app'' tplApi) [] =
     (None,
      projectCalls sampleExt ''app''
        @ [MkdirAll (Join [Str ''app'', Str ''api'']),
           WriteFile (Join [Join [Str ''app'', Str ''api''], Str ''.gitkeep'']) [],
           MkdirAll (Join [Str ''app'', Str ''configs'']),
           WriteFile (Join [Join [Str ''app'', Str ''configs''], Str ''.gitkeep'']) [],
           MkdirAll (Join [Str ''app'', Str ''scripts'']),
           WriteFile (Join [Join [Str ''app'', Str ''scripts''], Str ''.gitkeep'']) [],
           WriteFile (Join [Str ''app'', Str ''.gocar.toml''])
             (generateTemplateConfigContent sampleExt freshWorld
                (NewCreatorWithTemplate ''app'' tplApi) (mergeCommands freshWorld tplApi)),
           InitGit ''app''])"
  by (simp add: NewCreatorWithTemplate_def tplApi_def freshWorld_def Create_def os_IsNotExist_def
        createFromTemplate_def createBase_def createProjectMode_def createTemplateConfig_def
        projectCalls_def io_then_def io_ok_def issue_def os_MkdirAll_def
        util_WriteFile_def goModInit_def initGit_def ConfigFileName_def)

text \<open>
  Claim C4, as the code has it. A templated creation that succeeds issues, in this
  order: the calls of the base layout, the template's directories (each followed by its
  \<open>.gitkeep\<close>), the template's files (each after the creation of its parent directory),
  the project's configuration file, and only then the initialisation of version control
  (with its warning if it failed). The base layout itself initialises no version control:
  \<open>Create\<close> does it once, after \<open>createFromTemplate\<close> has returned.
\<close>

theorem templated_generation_order:
  assumes "Template c = Some t" and "os_Stat w (Str (Name c)) = Some ErrNotExist"
    and "Create x w c tr = (None, tr')"
  shows "tr' = tr @ baseCalls x c
              @ dirCalls (Name c) (Dirs t)
              @ fileCalls (Name c) (rangeOrder w RangeFiles (Files t))
              @ [WriteFile (Join [Str (Name c), Str ConfigFileName])
                   (generateTemplateConfigContent x w c (mergeCommands w t))]
              @ gitCalls w (tr @ templatedCalls x w c t) (Name c)
         \<and> hd (gitCalls w (tr @ templatedCalls x w c t) (Name c)) = InitGit (Name c)
         \<and> InitGit (Name c) \<notin> set (baseCalls x c)"
  using Create_template_calls [OF assms] InitGit_not_in_templatedCalls [of "Name c" x w c t]
  by (simp add: hd_gitCalls) (simp add: templatedCalls_def)

theorem templated_generation_order_witness:
  "Template (NewCreatorWithTemplate ''app'' tplApi) = Some tplApi \<and>
   os_Stat freshWorld (Str ''app'') = Some ErrNotExist \<and>
   fst (Create sampleExt freshWorld (NewCreatorWithTemplate ''app'' tplApi) []) = None \<and>
   snd (Create sampleExt freshWorld (NewCreatorWithTemplate ''app'' tplApi) []) =
     baseCalls sampleExt (NewCreatorWithTemplate ''app'' tplApi)
       @ dirCalls ''app'' [''api'', ''configs'', ''scripts'']
       @ fileCalls ''app'' []
       @ [WriteFile (Join [Str ''app'', Str ConfigFileName])
            (generateTemplateConfigContent sampleExt freshWorld
               (NewCreatorWithTemplate ''app'' tplApi) (mergeCommands freshWorld tplApi))]
       @ [InitGit ''app'']"
  using templated_generation_order
    [of "NewCreatorWithTemplate ''app'' tplApi" tplApi freshWorld sampleExt "[]"
        "snd (Create sampleExt freshWorld (NewCreatorWithTemplate ''app'' tplApi) [])"]
  by (simp add: Create_freshWorld_api)
     (simp add: NewCreatorWithTemplate_def tplApi_def freshWorld_def gitCalls_def)

text \<open>
  Claim C4, as it is stated, fails: version control is not initialised before the
  template's directories are created. On the example template \<open>api\<close> the call of
  \<open>util.InitGit\<close> does not precede the creation of the directory \<open>api\<close>; it follows
  it, and it is the last call of the run.
\<close>

theorem version_control_is_initialised_after_the_template_steps:
  "fst (Create sampleExt freshWorld (NewCreatorWithTemplate ''app'' tplApi) []) = None \<and>
   \<not> occurs_before (InitGit ''app'') (MkdirAll (Join [Str ''app'', Str ''api'']))
       (snd (Create sampleExt freshWorld (NewCreatorWithTemplate ''app'' tplApi) [])) \<and>
   occurs_before (MkdirAll (Join [Str ''app'', Str ''api''])) (InitGit ''app'')
       (snd (Create sampleExt freshWorld (NewCreatorWithTemplate ''app'' tplApi) [])) \<and>
   last (snd (Create sampleExt freshWorld (NewCreatorWithTemplate ''app'' tplApi) []))
     = InitGit ''app''"
  by (simp add: Create_freshWorld_api projectCalls_def)

section \<open>The build entry\<close>

lemma configText_lengths:
  "length configText_head = 203" "length configText_after_mode = 53"
  "length configText_after_name = 150" "length configText_after_entry = 1234"
  by (simp_all add: configText_head_def configText_after_mode_def configText_after_name_def
      configText_after_entry_def)

lemma linesFrom_no_newline:
  "CHR 0x0A \<notin> set a \<Longrightarrow> linesFrom cur (a @ s) = linesFrom (rev a @ cur) s"
  by (induction a arbitrary: cur) auto

lemma takeWhile_upto:
  "q \<notin> set a \<Longrightarrow> takeWhile (\<lambda>ch. ch \<noteq> q) (a @ q # s) = a"
  by (induction a) auto

lemma dropWhile_upto:
  "q \<notin> set a \<Longrightarrow> dropWhile (\<lambda>ch. ch \<noteq> q) (a @ q # s) = q # s"
  by (induction a) auto

lemma after_entry_first_line:
  "\<exists>rest. configText_after_entry = [CHR 0x22, CHR 0x0A] @ rest"
  unfolding configText_after_entry_def by (rule exI, simp only: concat.simps append_assoc)

lemmas reader_defs = isBlank_def tableOf_def keyValue_def stringValue_def trailingOk_def
  bareKeyChar_def boolValue_def Let_def

text \<open>The reader does not pass over a line that is neither a comment nor a pair.\<close>

lemma reader_rejects_a_stray_line:
  \<open>lookupIn ''build'' ''entry'' False [''[build]'', ''       project x'', ''entry = "."''] = None\<close>
  by (simp add: reader_defs)

lemma scan_simple:
  assumes "plainName name"
  shows "lookupIn ''build'' ''entry'' False
           (linesFrom [] (configText_head @ ''simple'' @ configText_after_mode @ name
              @ configText_after_name @ ''.'' @ [CHR 0x22, CHR 0x0A] @ rest)) = Some ''.''"
  using assms
  by (simp add: plainName_def configText_head_def configText_after_mode_def
      configText_after_name_def linesFrom_no_newline takeWhile_upto dropWhile_upto reader_defs)

lemma scan_project:
  assumes "plainName name"
  shows "lookupIn ''build'' ''entry'' False
           (linesFrom [] (configText_head @ ''project'' @ configText_after_mode @ name
              @ configText_after_name @ ''cmd/server'' @ [CHR 0x22, CHR 0x0A] @ rest))
         = Some ''cmd/server''"
  using assms
  by (simp add: plainName_def configText_head_def configText_after_mode_def
      configText_after_name_def linesFrom_no_newline takeWhile_upto dropWhile_upto reader_defs)

lemma build_entry_simple:
  assumes "Creator.Mode c = ''simple''" and "plainName (Name c)"
  shows "tomlString ''build'' ''entry'' (generateTemplateConfigContent x w c commands) = Some ''.''"
proof -
  obtain rest where r: "configText_after_entry = [CHR 0x22, CHR 0x0A] @ rest"
    using after_entry_first_line by blast
  show ?thesis
    using scan_simple [OF assms(2), of "rest @ cmdSection x w commands"] assms(1)
    by (simp add: tomlString_def splitLines_def generateTemplateConfigContent_def buildEntry_def r)
qed

lemma build_entry_project:
  assumes "Creator.Mode c = ''project''" and "plainName (Name c)"
  shows "tomlString ''build'' ''entry'' (generateTemplateConfigContent x w c commands)
         = Some ''cmd/server''"
proof -
  obtain rest where r: "configText_after_entry = [CHR 0x22, CHR 0x0A] @ rest"
    using after_entry_first_line by blast
  show ?thesis
    using scan_project [OF assms(2), of "rest @ cmdSection x w commands"] assms(1)
    by (simp add: tomlString_def splitLines_def generateTemplateConfigContent_def buildEntry_def r)
qed

lemma Create_freshWorld_lib:
  "Create sampleExt freshWorld (NewCreatorWithTemplate ''app'' tplLib) [] =
     (None,
      simpleCalls sampleExt ''app''
        @ [MkdirAll (Join [Str ''app'', Str ''examples'']),
           WriteFile (Join [Join [Str ''app'', Str ''examples''], Str ''.gitkeep'']) [],
           WriteFile (Join [Str ''app'', Str ''.gocar.toml''])
             (generateTemplateConfigContent sampleExt freshWorld
                (NewCreatorWithTemplate ''app'' tplLib) (mergeCommands freshWorld tplLib)),
           InitGit ''app''])"
  by (simp add: NewCreatorWithTemplate_def tplLib_def freshWorld_def Create_def os_IsNotExist_def
        createFromTemplate_def createBase_def createSimpleProject_def createTemplateConfig_def
        simpleCalls_def io_then_def io_ok_def issue_def os_MkdirAll_def
        util_WriteFile_def goModInit_def initGit_def ConfigFileName_def)

text \<open>
  Claim C5. A templated creation that succeeds writes the configuration text to the
  project's configuration file. For base mode \<open>simple\<close> the text has \<open>.\<close> in the place
  of the build entry, and the entry file is \<open>main.go\<close> directly under the project root;
  for base mode \<open>project\<close> the text has \<open>cmd/server\<close> there, and the entry file is
  \<open>main.go\<close> under \<open>cmd\<close>, \<open>server\<close> of the project root. The name is written
  between double quotes as it is; when it has no newline, double quote or backslash, a
  reader of the text finds exactly that string as \<open>entry\<close> of the table \<open>[build]\<close>.
\<close>

theorem build_entry_names_the_directory_of_the_entry_point:
  assumes "Template c = Some t" and "os_Stat w (Str (Name c)) = Some ErrNotExist"
    and "Create x w c tr = (None, tr')"
  shows "WriteFile (Join [Str (Name c), Str ConfigFileName])
           (generateTemplateConfigContent x w c (mergeCommands w t)) \<in> set tr'
         \<and> (Creator.Mode c = ''simple'' \<longrightarrow>
              generateTemplateConfigContent x w c (mergeCommands w t) =
                configText_head @ ''simple'' @ configText_after_mode @ Name c
                  @ configText_after_name @ ''.'' @ configText_after_entry
                  @ cmdSection x w (mergeCommands w t)
              \<and> (plainName (Name c) \<longrightarrow>
                   tomlString ''build'' ''entry''
                     (generateTemplateConfigContent x w c (mergeCommands w t)) = Some ''.'')
              \<and> WriteFile (Join [Str (Name c), Str ''main.go''])
                   (SimpleMainTemplate x (Name c)) \<in> set tr')
         \<and> (Creator.Mode c = ''project'' \<longrightarrow>
              generateTemplateConfigContent x w c (mergeCommands w t) =
                configText_head @ ''project'' @ configText_after_mode @ Name c
                  @ configText_after_name @ ''cmd/server'' @ configText_after_entry
                  @ cmdSection x w (mergeCommands w t)
              \<and> (plainName (Name c) \<longrightarrow>
                   tomlString ''build'' ''entry''
                     (generateTemplateConfigContent x w c (mergeCommands w t))
                     = Some ''cmd/server'')
              \<and> WriteFile (Join [Str (Name c), Str ''cmd'', Str ''server'', Str ''main.go''])
                   (ProjectMainTemplate x (Name c)) \<in> set tr')"
proof -
  have calls: "tr' = tr @ templatedCalls x w c t @ gitCalls w (tr @ templatedCalls x w c t) (Name c)"
    using assms by (rule Create_template_calls)
  have cfg: "WriteFile (Join [Str (Name c), Str ConfigFileName])
           (generateTemplateConfigContent x w c (mergeCommands w t)) \<in> set tr'"
    by (simp add: calls templatedCalls_def)
  have simple: "WriteFile (Join [Str (Name c), Str ''main.go''])
                   (SimpleMainTemplate x (Name c)) \<in> set tr'"
    if "Creator.Mode c = ''simple''"
    using that by (simp add: calls templatedCalls_def baseCalls_def simpleCalls_def)
  have project: "WriteFile (Join [Str (Name c), Str ''cmd'', Str ''server'', Str ''main.go''])
                   (ProjectMainTemplate x (Name c)) \<in> set tr'"
    if "Creator.Mode c = ''project''"
    using that by (simp add: calls templatedCalls_def baseCalls_def projectCalls_def)
  have shape_simple: "generateTemplateConfigContent x w c (mergeCommands w t) =
                configText_head @ ''simple'' @ configText_after_mode @ Name c
                  @ configText_after_name @ ''.'' @ configText_after_entry
                  @ cmdSection x w (mergeCommands w t)"
    if "Creator.Mode c = ''simple''"
    using that by (simp add: generateTemplateConfigContent_def buildEntry_def)
  have shape_project: "generateTemplateConfigContent x w c (mergeCommands w t) =
                configText_head @ ''project'' @ configText_after_mode @ Name c
                  @ configText_after_name @ ''cmd/server'' @ configText_after_entry
                  @ cmdSection x w (mergeCommands w t)"
    if "Creator.Mode c = ''project''"
    using that by (simp add: generateTemplateConfigContent_def buildEntry_def)
  show ?thesis
    using cfg simple project shape_simple shape_project
      build_entry_simple [of c x w "mergeCommands w t"]
      build_entry_project [of c x w "mergeCommands w t"]
    by (intro conjI impI) assumption+
qed

theorem build_entry_witness:
  "plainName ''app'' \<and>
   Template (NewCreatorWithTemplate ''app'' tplApi) = Some tplApi \<and>
   Template (NewCreatorWithTemplate ''app'' tplLib) = Some tplLib \<and>
   os_Stat freshWorld (Str ''app'') = Some ErrNotExist \<and>
   fst (Create sampleExt freshWorld (NewCreatorWithTemplate ''app'' tplApi) []) = None \<and>
   fst (Create sampleExt freshWorld (NewCreatorWithTemplate ''app'' tplLib) []) = None \<and>
   tomlString ''build'' ''entry''
     (generateTemplateConfigContent sampleExt freshWorld
        (NewCreatorWithTemplate ''app'' tplApi) (mergeCommands freshWorld tplApi))
     = Some ''cmd/server'' \<and>
   WriteFile (Join [Str ''app'', Str ''cmd'', Str ''server'', Str ''main.go''])
       ''package main // project app''
     \<in> set (snd (Create sampleExt freshWorld (NewCreatorWithTemplate ''app'' tplApi) [])) \<and>
   tomlString ''build'' ''entry''
     (generateTemplateConfigContent sampleExt freshWorld
        (NewCreatorWithTemplate ''app'' tplLib) (mergeCommands freshWorld tplLib))
     = Some ''.'' \<and>
   WriteFile (Join [Str ''app'', Str ''main.go'']) ''package main // simple app''
     \<in> set (snd (Create sampleExt freshWorld (NewCreatorWithTemplate ''app'' tplLib) []))"
proof -
  have api: "Template (NewCreatorWithTemplate ''app'' tplApi) = Some tplApi"
    "Name (NewCreatorWithTemplate ''app'' tplApi) = ''app''"
    "Creator.Mode (NewCreatorWithTemplate ''app'' tplApi) = ''project''"
    by (simp_all add: NewCreatorWithTemplate_def tplApi_def)
  have lib: "Template (NewCreatorWithTemplate ''app'' tplLib) = Some tplLib"
    "Name (NewCreatorWithTemplate ''app'' tplLib) = ''app''"
    "Creator.Mode (NewCreatorWithTemplate ''app'' tplLib) = ''simple''"
    by (simp_all add: NewCreatorWithTemplate_def tplLib_def)
  have free: "os_Stat freshWorld (Str ''app'') = Some ErrNotExist"
    by (simp add: freshWorld_def)
  have run_api: "Create sampleExt freshWorld (NewCreatorWithTemplate ''app'' tplApi) [] =
      (None, snd (Create sampleExt freshWorld (NewCreatorWithTemplate ''app'' tplApi) []))"
    by (simp add: Create_freshWorld_api)
  have run_lib: "Create sampleExt freshWorld (NewCreatorWithTemplate ''app'' tplLib) [] =
      (None, snd (Create sampleExt freshWorld (NewCreatorWithTemplate ''app'' tplLib) []))"
    by (simp add: Create_freshWorld_lib)
  have tpl: "ProjectMainTemplate sampleExt ''app'' = ''package main // project app''"
    "SimpleMainTemplate sampleExt ''app'' = ''package main // simple app''"
    by (simp_all add: sampleExt_def)
  have n: "plainName ''app''"
    by (simp add: plainName_def)
  note project = build_entry_names_the_directory_of_the_entry_point
      [of "NewCreatorWithTemplate ''app'' tplApi" tplApi freshWorld sampleExt "[]"
          "snd (Create sampleExt freshWorld (NewCreatorWithTemplate ''app'' tplApi) [])",
       OF api(1) _ run_api, unfolded api(2), OF free,
       THEN conjunct2, THEN conjunct2, THEN mp, OF api(3), THEN conjunct2]
  note simple = build_entry_names_the_directory_of_the_entry_point
      [of "NewCreatorWithTemplate ''app'' tplLib" tplLib freshWorld sampleExt "[]"
          "snd (Create sampleExt freshWorld (NewCreatorWithTemplate ''app'' tplLib) [])",
       OF lib(1) _ run_lib, unfolded lib(2), OF free,
       THEN conjunct2, THEN conjunct1, THEN mp, OF lib(3), THEN conjunct2]
  have A: "tomlString ''build'' ''entry''
     (generateTemplateConfigContent sampleExt freshWorld
        (NewCreatorWithTemplate ''app'' tplApi) (mergeCommands freshWorld tplApi))
     = Some ''cmd/server''"
    by (rule project [THEN conjunct1, THEN mp, OF n])
  have A': "WriteFile (Join [Str ''app'', Str ''cmd'', Str ''server'', Str ''main.go''])
       ''package main // project app''
     \<in> set (snd (Create sampleExt freshWorld (NewCreatorWithTemplate ''app'' tplApi) []))"
    using project [THEN conjunct2] by (simp only: tpl)
  have B: "tomlString ''build'' ''entry''
     (generateTemplateConfigContent sampleExt freshWorld
        (NewCreatorWithTemplate ''app'' tplLib) (mergeCommands freshWorld tplLib))
     = Some ''.''"
    by (rule simple [THEN conjunct1, THEN mp, OF n])
  have B': "WriteFile (Join [Str ''app'', Str ''main.go'']) ''package main // simple app''
     \<in> set (snd (Create sampleExt freshWorld (NewCreatorWithTemplate ''app'' tplLib) []))"
    using simple [THEN conjunct2] by (simp only: tpl)
  have ok: "fst (Create sampleExt freshWorld (NewCreatorWithTemplate ''app'' tplApi) []) = None"
    "fst (Create sampleExt freshWorld (NewCreatorWithTemplate ''app'' tplLib) []) = None"
    by (simp_all add: Create_freshWorld_api Create_freshWorld_lib)
  from n A A' B B' ok api(1) lib(1) free show ?thesis
    by (intro conjI)
qed

section \<open>A template with an unknown base mode\<close>

text \<open>
  Claim C3 does not hold of the code. The registry of \<open>freshWorld\<close> has the template
  \<open>svc\<close> whose base mode is \<open>web\<close>. Creating a project from it raises no error:
  \<open>createFromTemplate\<close> takes every mode other than \<open>simple\<close> for \<open>project\<close> and lays
  out the project layout (entry file under \<open>cmd/server\<close>), while
  \<open>generateTemplateConfigContent\<close> takes every mode other than \<open>project\<close> for
  \<open>simple\<close> and writes the build entry \<open>.\<close>, next to the mode \<open>web\<close>.
\<close>

theorem unknown_base_mode_is_accepted:
  \<open>GetTemplate sampleConfig ''svc'' = Some tplWeb \<and>
   TemplateConfig.Mode tplWeb = ''web'' \<and>
   runNew sampleExt freshWorld ''app'' ''svc'' [] =
     (None,
      projectCalls sampleExt ''app''
        @ [WriteFile (Join [Str ''app'', Str ''.gocar.toml''])
             (configText_head @ ''web'' @ configText_after_mode @ ''app''
                @ configText_after_name @ ''.'' @ configText_after_entry
                @ ''vet = "go vet ./..."\<newline>''
                @ ''fmt = "go fmt ./..."\<newline>''
                @ ''test = "go test -v ./..."\<newline>''),
           InitGit ''app''])\<close>
proof -
  have sel: "selectCreator freshWorld ''app'' ''svc'' = Inr (NewCreatorWithTemplate ''app'' tplWeb)"
    by (simp add: selectCreator_def LoadGlobalConfig_freshWorld GetTemplate_def sampleConfig_def)
  have cmds: \<open>cmdSection sampleExt freshWorld (mergeCommands freshWorld tplWeb) =
      ''vet = "go vet ./..."\<newline>'' @ ''fmt = "go fmt ./..."\<newline>''
        @ ''test = "go test -v ./..."\<newline>''\<close>
    by (simp add: cmdSection_concat mergeCommands_def freshWorld_def tplWeb_def
        builtinCommands_def commandLine_def sampleExt_def quoteAscii_def)
  have content: "generateTemplateConfigContent sampleExt freshWorld
        (NewCreatorWithTemplate ''app'' tplWeb) (mergeCommands freshWorld tplWeb) =
      configText_head @ ''web'' @ configText_after_mode @ ''app''
        @ configText_after_name @ ''.'' @ configText_after_entry
        @ cmdSection sampleExt freshWorld (mergeCommands freshWorld tplWeb)"
    by (simp add: generateTemplateConfigContent_def buildEntry_def NewCreatorWithTemplate_def
        tplWeb_def)
  have run: "Create sampleExt freshWorld (NewCreatorWithTemplate ''app'' tplWeb) [] =
     (None,
      projectCalls sampleExt ''app''
        @ [WriteFile (Join [Str ''app'', Str ''.gocar.toml''])
             (generateTemplateConfigContent sampleExt freshWorld
                (NewCreatorWithTemplate ''app'' tplWeb) (mergeCommands freshWorld tplWeb)),
           InitGit ''app''])"
    by (simp add: NewCreatorWithTemplate_def tplWeb_def freshWorld_def Create_def os_IsNotExist_def
        createFromTemplate_def createBase_def createProjectMode_def createTemplateConfig_def
        projectCalls_def io_then_def io_ok_def issue_def os_MkdirAll_def
        util_WriteFile_def goModInit_def initGit_def ConfigFileName_def)
  show ?thesis
    by (simp add: runNew_def sel run content cmds)
       (simp add: GetTemplate_def sampleConfig_def tplWeb_def)
qed

end
